theory Spec2Isabelle
  imports Complex_Main "HOL-Library.Sublist"
begin

section \<open>Values, exceptions and the format catalog\<close>

text \<open>
  The optional request fields (\<open>sample_rate\<close>, \<open>bitrate\<close>, \<open>channels\<close>) reach the
  converters as Python values: \<open>None\<close> when the caller left them out, an integer or a
  string otherwise. The converters test them with \<open>if sample_rate:\<close>, that is by Python
  truthiness, so the model keeps the value and its truthiness.
\<close>

datatype pyval = PNone | PInt int | PStr string

fun truthy :: "pyval \<Rightarrow> bool" where
  "truthy PNone = False"
| "truthy (PInt n) = (n \<noteq> 0)"
| "truthy (PStr s) = (s \<noteq> [])"

text \<open>Exceptions carry their class and the text that \<open>str(e)\<close> returns.\<close>

datatype exn =
    ValueError string
  | TypeError string
  | KeyError string
  | OSError string
  | AttributeError string
  | ZeroDivisionError string
  | FileNotFoundError string
  | Exception string

fun str_exn :: "exn \<Rightarrow> string" where
  "str_exn (ValueError m) = m"
| "str_exn (TypeError m) = m"
| "str_exn (KeyError m) = m"
| "str_exn (OSError m) = m"
| "str_exn (AttributeError m) = m"
| "str_exn (ZeroDivisionError m) = m"
| "str_exn (FileNotFoundError m) = m"
| "str_exn (Exception m) = m"

record format_info =
  ext :: string
  codec :: string

text \<open>
  \<open>AUDIO_FORMATS\<close> of \<open>app.py\<close> (the table of \<open>config.py\<close> has the same keys, \<open>ext\<close>
  and \<open>codec\<close>; \<open>cli_converter.py\<close> repeats it as \<open>self.formats\<close>).
\<close>

definition AUDIO_FORMATS :: "(string \<times> format_info) list" where
  "AUDIO_FORMATS =
    [(''mp3'',  \<lparr>ext = ''mp3'',  codec = ''libmp3lame''\<rparr>),
     (''ogg'',  \<lparr>ext = ''ogg'',  codec = ''libvorbis''\<rparr>),
     (''wav'',  \<lparr>ext = ''wav'',  codec = ''pcm_s16le''\<rparr>),
     (''flac'', \<lparr>ext = ''flac'', codec = ''flac''\<rparr>),
     (''aac'',  \<lparr>ext = ''aac'',  codec = ''aac''\<rparr>),
     (''m4a'',  \<lparr>ext = ''m4a'',  codec = ''aac''\<rparr>),
     (''opus'', \<lparr>ext = ''opus'', codec = ''libopus''\<rparr>),
     (''wma'',  \<lparr>ext = ''wma'',  codec = ''wmav2''\<rparr>)]"

definition OUTPUT_FOLDER :: string where
  "OUTPUT_FOLDER = ''outputs''"

section \<open>Paths\<close>

text \<open>\<open>os.path.join\<close> of \<open>posixpath\<close>, for two components.\<close>

definition os_path_join :: "string \<Rightarrow> string \<Rightarrow> string" where
  "os_path_join a b =
     (if b \<noteq> [] \<and> hd b = CHR ''/'' then b
      else if a = [] \<or> last a = CHR ''/'' then a @ b
      else a @ ''/'' @ b)"

fun split_on :: "char \<Rightarrow> string \<Rightarrow> string list" where
  "split_on c [] = [[]]"
| "split_on c (x # xs) =
     (if x = c then [] # split_on c xs
      else (case split_on c xs of
              [] \<Rightarrow> [[x]]
            | w # ws \<Rightarrow> (x # w) # ws))"

text \<open>
  \<open>Path(p).name\<close> of a POSIX path: the last component, empty and \<open>.\<close> components
  dropped; the empty string when there is none.
\<close>

definition path_name :: "string \<Rightarrow> string" where
  "path_name p =
     (case filter (\<lambda>w. w \<noteq> [] \<and> w \<noteq> ''.'') (split_on CHR ''/'' p) of
        [] \<Rightarrow> []
      | w # ws \<Rightarrow> last (w # ws))"

text \<open>\<open>name.rfind('.')\<close>: the index of the last dot, if any.\<close>

fun rfind_dot :: "string \<Rightarrow> nat option" where
  "rfind_dot [] = None"
| "rfind_dot (x # xs) =
     (case rfind_dot xs of
        Some i \<Rightarrow> Some (Suc i)
      | None \<Rightarrow> (if x = CHR ''.'' then Some 0 else None))"

text \<open>
  \<open>Path(p).stem\<close>: the name without its last suffix; a leading dot or a trailing dot
  is no suffix.
\<close>

definition path_stem :: "string \<Rightarrow> string" where
  "path_stem p =
     (let name = path_name p in
      case rfind_dot name of
        None \<Rightarrow> name
      | Some i \<Rightarrow> (if 0 < i \<and> i < length name - 1 then take i name else name))"

section \<open>Encoder parameters\<close>

type_synonym params = "string \<rightharpoonup> pyval"

text \<open>
  Lines 108 to 114 of \<open>app.py\<close> (and lines 82 to 88 of \<open>cli_converter.py\<close>, which are the
  same): the parameter dictionary handed to \<open>ffmpeg.output\<close>.
\<close>

definition audio_params :: "format_info \<Rightarrow> pyval \<Rightarrow> pyval \<Rightarrow> params" where
  "audio_params format_info sample_rate bitrate =
     (let p0 = [''acodec'' \<mapsto> PStr (codec format_info)];
          p1 = (if truthy sample_rate then p0(''ar'' \<mapsto> sample_rate) else p0);
          p2 = (if truthy bitrate then p1(''audio_bitrate'' \<mapsto> bitrate) else p1)
      in p2)"

text \<open>
  \<open>ConversionThread._get_audio_params\<close> of the desktop front end: its own codec table
  with the fallback \<open>copy\<close>, the settings read with \<open>dict.get\<close> (a missing key is
  \<open>None\<close>), and a third optional key for the channel count.
\<close>

definition codec_map :: "(string \<times> string) list" where
  "codec_map =
    [(''mp3'', ''libmp3lame''), (''ogg'', ''libvorbis''), (''wav'', ''pcm_s16le''),
     (''flac'', ''flac''), (''aac'', ''aac''), (''m4a'', ''aac''),
     (''opus'', ''libopus''), (''wma'', ''wmav2'')]"

definition dict_get :: "params \<Rightarrow> string \<Rightarrow> pyval" where
  "dict_get d k = (case d k of None \<Rightarrow> PNone | Some v \<Rightarrow> v)"

definition get_audio_params :: "string \<Rightarrow> params \<Rightarrow> params" where
  "get_audio_params output_format settings =
     (let p0 = [''acodec'' \<mapsto>
                  PStr (case map_of codec_map output_format of
                          None \<Rightarrow> ''copy'' | Some c \<Rightarrow> c)];
          p1 = (if truthy (dict_get settings ''sample_rate'')
                then p0(''ar'' \<mapsto> dict_get settings ''sample_rate'') else p0);
          p2 = (if truthy (dict_get settings ''bitrate'')
                then p1(''audio_bitrate'' \<mapsto> dict_get settings ''bitrate'') else p1);
          p3 = (if truthy (dict_get settings ''channels'')
                then p2(''ac'' \<mapsto> dict_get settings ''channels'') else p2)
      in p3)"

section \<open>Jobs and the state of the web server\<close>

datatype status = Queued | Processing | Completed | Failed

text \<open>
  A job record of \<open>conversion_jobs\<close>. The keys \<open>output_path\<close> and \<open>error\<close> are absent
  from the dictionary until they are assigned.
\<close>

record job =
  id_job :: string
  status :: status
  progress :: int
  filename :: string
  message :: string
  output_path :: "string option"
  error :: "string option"

text \<open>
  The state the runner works on: the job table, the names listed in the \<open>temp\<close>
  directory, and three logs the source does not keep, which record what was done: the
  URLs handed to the downloader, the encoder invocations (input, output, parameters), and
  a snapshot of a job record after each assignment to one of its keys.
\<close>

record state =
  conversion_jobs :: "string \<rightharpoonup> job"
  temp_dir :: "string list"
  ydl_calls :: "string list"
  ffmpeg_calls :: "(string \<times> string \<times> params) list"
  history :: "(string \<times> job) list"

text \<open>
  The external collaborators. \<open>extract_info url outtmpl listing\<close> is the downloader:
  it returns the title of the video (\<open>None\<close> when the info has no title) or the
  exception raised inside the \<open>try\<close> block, and the listing of \<open>temp\<close> afterwards.
  \<open>ffmpeg_run\<close> is the encoder; \<open>remove_raises\<close> tells for which paths \<open>os.remove\<close>
  raises.
\<close>

datatype run_outcome = Run_ok | Run_ffmpeg_error string | Run_raises exn

record env =
  extract_info :: "string \<Rightarrow> string \<Rightarrow> string list \<Rightarrow> (exn + string option) \<times> string list"
  ffmpeg_run :: "string \<Rightarrow> string \<Rightarrow> params \<Rightarrow> run_outcome"
  remove_raises :: "string \<Rightarrow> exn option"

text \<open>\<open>conversion_jobs[job_id][key] = value\<close>, as an update of the record.\<close>

definition set_job :: "string \<Rightarrow> (job \<Rightarrow> job) \<Rightarrow> state \<Rightarrow> state" where
  "set_job job_id f st =
     (case conversion_jobs st job_id of
        None \<Rightarrow> st
      | Some j \<Rightarrow> st\<lparr>conversion_jobs := (conversion_jobs st)(job_id \<mapsto> f j),
                      history := history st @ [(job_id, f j)]\<rparr>)"

definition os_path_exists :: "state \<Rightarrow> string \<Rightarrow> bool" where
  "os_path_exists st p = (p \<in> set (map (os_path_join ''temp'') (temp_dir st)))"

definition os_remove :: "env \<Rightarrow> string \<Rightarrow> state \<Rightarrow> exn + state" where
  "os_remove env p st =
     (case remove_raises env p of
        Some e \<Rightarrow> Inl e
      | None \<Rightarrow> Inr (st\<lparr>temp_dir := filter (\<lambda>f. os_path_join ''temp'' f \<noteq> p) (temp_dir st)\<rparr>))"

section \<open>The web runner (\<open>app.py\<close>)\<close>

text \<open>
  \<open>download_youtube_audio\<close>: every exception of the \<open>try\<close> block is raised again as
  \<open>Exception("YouTube download failed: ...")\<close>; the first listed file whose name starts
  with \<open>{job_id}_youtube\<close> is returned with the title; when the loop finds none the
  function falls off its end and returns \<open>None\<close>.
\<close>

definition download_youtube_audio ::
  "env \<Rightarrow> string \<Rightarrow> string \<Rightarrow> state \<Rightarrow> (exn + (string \<times> string) option) \<times> state" where
  "download_youtube_audio env url job_id st =
     (let output_path = os_path_join ''temp'' (job_id @ ''_youtube.%(ext)s'');
          r = extract_info env url output_path (temp_dir st);
          st1 = st\<lparr>temp_dir := snd r, ydl_calls := ydl_calls st @ [url]\<rparr>
      in case fst r of
           Inl e \<Rightarrow> (Inl (Exception (''YouTube download failed: '' @ str_exn e)), st1)
         | Inr info_title \<Rightarrow>
             (let title = (case info_title of None \<Rightarrow> ''Unknown'' | Some t \<Rightarrow> t) in
              case find (\<lambda>file. prefix (job_id @ ''_youtube'') file) (temp_dir st1) of
                Some file \<Rightarrow> (Inr (Some (os_path_join ''temp'' file, title)), st1)
              | None \<Rightarrow> (Inr None, st1)))"

text \<open>\<open>f"{job_id}"\<close>, where \<open>job_id\<close> defaults to \<open>None\<close>.\<close>

definition format_job_id :: "string option \<Rightarrow> string" where
  "format_job_id job_id = (case job_id of None \<Rightarrow> ''None'' | Some j \<Rightarrow> j)"

definition web_output_path :: "string \<Rightarrow> format_info \<Rightarrow> string option \<Rightarrow> string" where
  "web_output_path input_path format_info job_id =
     (let output_filename = path_stem input_path @ ''.'' @ ext format_info
      in os_path_join OUTPUT_FOLDER (format_job_id job_id @ ''_'' @ output_filename))"

text \<open>
  \<open>convert_audio\<close>: the catalog is looked up first; the encoder is invoked only after
  that. An \<open>FFmpegError\<close> becomes \<open>Exception("Conversion failed: ...")\<close>, with the
  captured error stream, or \<open>str(e)\<close> when that stream is empty; any other exception of
  the encoder call passes through.
\<close>

definition convert_audio ::
  "env \<Rightarrow> string \<Rightarrow> string \<Rightarrow> pyval \<Rightarrow> pyval \<Rightarrow> string option \<Rightarrow> state \<Rightarrow> (exn + string) \<times> state" where
  "convert_audio env input_path output_format sample_rate bitrate job_id st =
     (case map_of AUDIO_FORMATS output_format of
        None \<Rightarrow> (Inl (ValueError (''Unsupported format: '' @ output_format)), st)
      | Some format_info \<Rightarrow>
          (let output_path = web_output_path input_path format_info job_id;
               ps = audio_params format_info sample_rate bitrate;
               st1 = st\<lparr>ffmpeg_calls := ffmpeg_calls st @ [(input_path, output_path, ps)]\<rparr>
           in case ffmpeg_run env input_path output_path ps of
                Run_ok \<Rightarrow> (Inr output_path, st1)
              | Run_ffmpeg_error stderr \<Rightarrow>
                  (Inl (Exception (''Conversion failed: '' @
                     (if stderr \<noteq> [] then stderr
                      else ''ffmpeg error (see stderr output for detail)''))), st1)
              | Run_raises e \<Rightarrow> (Inl e, st1)))"

text \<open>
  The body of the \<open>try\<close> block of \<open>process_conversion_job\<close>: the exception that leaves
  it, if any, and the state at that point.
\<close>

definition acquire_input ::
  "env \<Rightarrow> string \<Rightarrow> string \<Rightarrow> string \<Rightarrow> state \<Rightarrow> (exn + string) \<times> state" where
  "acquire_input env job_id source_type source_data st =
     (if source_type = ''youtube'' then
        (let st1 = set_job job_id (\<lambda>j. j\<lparr>message := ''Downloading from YouTube...''\<rparr>) st;
             r = download_youtube_audio env source_data job_id st1
         in case fst r of
              Inl e \<Rightarrow> (Inl e, snd r)
            | Inr None \<Rightarrow>
                (Inl (TypeError ''cannot unpack non-iterable NoneType object''), snd r)
            | Inr (Some (input_path, title)) \<Rightarrow>
                (let st2 = set_job job_id (\<lambda>j. j\<lparr>filename := title\<rparr>) (snd r);
                     st3 = set_job job_id (\<lambda>j. j\<lparr>progress := 60\<rparr>) st2
                 in (Inr input_path, st3)))
      else
        (Inr source_data, set_job job_id (\<lambda>j. j\<lparr>progress := 60\<rparr>) st))"

definition try_body ::
  "env \<Rightarrow> string \<Rightarrow> string \<Rightarrow> string \<Rightarrow> string \<Rightarrow> pyval \<Rightarrow> pyval \<Rightarrow> state \<Rightarrow> exn option \<times> state" where
  "try_body env job_id source_type source_data output_format sample_rate bitrate st =
     (let st1 = set_job job_id (\<lambda>j. j\<lparr>status := Processing\<rparr>) st;
          st2 = set_job job_id (\<lambda>j. j\<lparr>progress := 20\<rparr>) st1;
          a = acquire_input env job_id source_type source_data st2
      in case fst a of
           Inl e \<Rightarrow> (Some e, snd a)
         | Inr input_path \<Rightarrow>
             (let st3 = set_job job_id (\<lambda>j. j\<lparr>message := ''Converting audio...''\<rparr>) (snd a);
                  c = convert_audio env input_path output_format sample_rate bitrate
                        (Some job_id) st3
              in case fst c of
                   Inl e \<Rightarrow> (Some e, snd c)
                 | Inr out \<Rightarrow>
                     (let st4 = set_job job_id (\<lambda>j. j\<lparr>status := Completed\<rparr>) (snd c);
                          st5 = set_job job_id (\<lambda>j. j\<lparr>progress := 100\<rparr>) st4;
                          st6 = set_job job_id (\<lambda>j. j\<lparr>output_path := Some out\<rparr>) st5;
                          st7 = set_job job_id (\<lambda>j. j\<lparr>message := ''Conversion completed!''\<rparr>) st6
                      in if source_type = ''youtube'' \<and> os_path_exists st7 input_path then
                           (case os_remove env input_path st7 of
                              Inl e \<Rightarrow> (Some e, st7)
                            | Inr st8 \<Rightarrow> (None, st8))
                         else (None, st7))))"

text \<open>
  \<open>process_conversion_job\<close>: the \<open>except Exception\<close> handler marks the job failed. A
  job id that is not in the table makes the first assignment raise \<open>KeyError\<close>, and the
  handler's own assignment raises it again, so it leaves the function.
\<close>

definition process_conversion_job ::
  "env \<Rightarrow> string \<Rightarrow> string \<Rightarrow> string \<Rightarrow> string \<Rightarrow> pyval \<Rightarrow> pyval \<Rightarrow> state \<Rightarrow> exn + state" where
  "process_conversion_job env job_id source_type source_data output_format sample_rate bitrate st =
     (if conversion_jobs st job_id = None then Inl (KeyError job_id)
      else
        (let r = try_body env job_id source_type source_data output_format sample_rate bitrate st
         in case fst r of
              None \<Rightarrow> Inr (snd r)
            | Some e \<Rightarrow>
                (let st1 = set_job job_id (\<lambda>j. j\<lparr>status := Failed\<rparr>) (snd r);
                     st2 = set_job job_id (\<lambda>j. j\<lparr>error := Some (str_exn e)\<rparr>) st1;
                     st3 = set_job job_id (\<lambda>j. j\<lparr>message := ''Error: '' @ str_exn e\<rparr>) st2
                 in Inr st3)))"

text \<open>
  The job record that the route \<open>convert\<close> stores for a source, before it starts the
  thread that runs \<open>process_conversion_job\<close>.
\<close>

definition queued_job :: "string \<Rightarrow> string \<Rightarrow> job" where
  "queued_job job_id name =
     \<lparr>id_job = job_id, status = Queued, progress = 0, filename = name,
      message = ''Queued for processing...'', output_path = None, error = None\<rparr>"

definition submit_job :: "string \<Rightarrow> string \<Rightarrow> state \<Rightarrow> state" where
  "submit_job job_id name st =
     st\<lparr>conversion_jobs := (conversion_jobs st)(job_id \<mapsto> queued_job job_id name),
        history := history st @ [(job_id, queued_job job_id name)]\<rparr>"

definition empty_state :: state where
  "empty_state = \<lparr>conversion_jobs = Map.empty, temp_dir = [], ydl_calls = [],
                  ffmpeg_calls = [], history = []\<rparr>"

text \<open>The snapshots of one job, in the order of the assignments.\<close>

definition job_history :: "string \<Rightarrow> state \<Rightarrow> job list" where
  "job_history job_id st = map snd (filter (\<lambda>p. fst p = job_id) (history st))"

section \<open>Classifying a source\<close>

text \<open>
  \<open>pat in s\<close> of Python: \<open>pat\<close> occurs in \<open>s\<close> at some position.
\<close>

fun contains :: "string \<Rightarrow> string \<Rightarrow> bool" where
  "contains pat [] = (pat = [])"
| "contains pat (x # xs) = (prefix pat (x # xs) \<or> contains pat xs)"

text \<open>
  \<open>re.search(r'(youtube\.com|youtu\.be)', url)\<close>: the pattern is tried at each
  position of the string, its two alternatives in turn.
\<close>

definition youtube_regex_match_here :: "string \<Rightarrow> bool" where
  "youtube_regex_match_here s = (prefix ''youtube.com'' s \<or> prefix ''youtu.be'' s)"

fun re_search_youtube :: "string \<Rightarrow> bool" where
  "re_search_youtube [] = youtube_regex_match_here []"
| "re_search_youtube (x # xs) = (youtube_regex_match_here (x # xs) \<or> re_search_youtube xs)"

definition is_youtube_url :: "string \<Rightarrow> bool" where
  "is_youtube_url url = re_search_youtube url"

definition cli_is_youtube_url :: "string \<Rightarrow> bool" where
  "cli_is_youtube_url url = (contains ''youtube.com'' url \<or> contains ''youtu.be'' url)"

text \<open>The desktop front end also accepts a source that is no string.\<close>

definition gui_is_youtube_url :: "pyval \<Rightarrow> bool" where
  "gui_is_youtube_url url =
     (case url of
        PStr u \<Rightarrow> contains ''youtube.com'' u \<or> contains ''youtu.be'' u
      | _ \<Rightarrow> False)"

text \<open>
  The specification's wording, for comparison: the test is on the hostname of the
  descriptor. The hostname is what follows the first \<open>://\<close>, up to the next \<open>/\<close>,
  \<open>?\<close> or \<open>#\<close>; a descriptor without \<open>://\<close> has none.
\<close>

fun spec_after_scheme :: "string \<Rightarrow> string option" where
  "spec_after_scheme [] = None"
| "spec_after_scheme (x # xs) =
     (if prefix ''://'' (x # xs) then Some (drop 3 (x # xs)) else spec_after_scheme xs)"

definition spec_hostname :: "string \<Rightarrow> string option" where
  "spec_hostname d =
     map_option (takeWhile (\<lambda>c. c \<noteq> CHR ''/'' \<and> c \<noteq> CHR ''?'' \<and> c \<noteq> CHR ''#''))
       (spec_after_scheme d)"

definition spec_classify_remote :: "string \<Rightarrow> bool" where
  "spec_classify_remote d =
     (case spec_hostname d of
        None \<Rightarrow> False
      | Some h \<Rightarrow> contains ''youtube.com'' h \<or> contains ''youtu.be'' h)"

section \<open>Retrieving the output (\<open>app.py\<close>, route \<open>download\<close>)\<close>

text \<open>
  What the route answers: a JSON error with its HTTP status, the file as an attachment
  under a download name, or the exception that leaves the handler (the framework then
  answers with status 500).
\<close>

datatype response =
    Json_error string nat
  | Attachment string string
  | Unhandled exn

fun join_with :: "string \<Rightarrow> string list \<Rightarrow> string" where
  "join_with sep [] = []"
| "join_with sep [w] = w"
| "join_with sep (w # v # ws) = w @ sep @ join_with sep (v # ws)"

text \<open>\<open>os.path.basename\<close>: what follows the last \<open>/\<close>.\<close>

definition os_path_basename :: "string \<Rightarrow> string" where
  "os_path_basename p = last (split_on CHR ''/'' p)"

definition clean_filename :: "string \<Rightarrow> string" where
  "clean_filename file_name = join_with ''_'' (tl (split_on CHR ''_'' file_name))"

text \<open>
  \<open>send_file\<close> of the web framework, given the paths present on disk: it reads the
  file's attributes first, which raises \<open>FileNotFoundError\<close> for a missing file. The
  route has no handler for it.
\<close>

definition send_file :: "string list \<Rightarrow> string \<Rightarrow> string \<Rightarrow> response" where
  "send_file disk path download_name =
     (if path \<in> set disk then Attachment path download_name
      else Unhandled (FileNotFoundError path))"

definition download :: "(string \<rightharpoonup> job) \<Rightarrow> string list \<Rightarrow> string \<Rightarrow> response" where
  "download jobs disk job_id =
     (case jobs job_id of
        None \<Rightarrow> Json_error ''Job not found'' 404
      | Some job \<Rightarrow>
          (if status job \<noteq> Completed \<or> output_path job = None
           then Json_error ''File not ready'' 400
           else (case output_path job of
                   None \<Rightarrow> Json_error ''File not ready'' 400
                 | Some out \<Rightarrow>
                     send_file disk out (clean_filename (os_path_basename out)))))"

section \<open>Output names of the command-line tool and the desktop front end\<close>

text \<open>
  \<open>AudioConverter.convert_audio\<close> of \<open>cli_converter.py\<close>: the output path is the stem
  with the catalog's extension, in the output directory, whatever is there already; the
  encoder is told to overwrite. An \<open>ffmpeg.Error\<close> is printed and \<open>None\<close> returned.
  The result comes with the encoder invocation made, if any. The output directory is
  created after the catalog has been consulted; \<open>makedirs_raises\<close> tells for which
  directories \<open>os.makedirs\<close> raises, and that exception leaves the function.
\<close>

definition cli_output_path :: "string \<Rightarrow> format_info \<Rightarrow> string \<Rightarrow> string" where
  "cli_output_path input_path format_info output_dir =
     os_path_join output_dir (path_stem input_path @ ''.'' @ ext format_info)"

definition cli_convert_audio ::
  "env \<Rightarrow> (string \<Rightarrow> exn option) \<Rightarrow> string \<Rightarrow> string \<Rightarrow> pyval \<Rightarrow> pyval \<Rightarrow> string \<Rightarrow>
     (exn + string option) \<times> (string \<times> string \<times> params) list" where
  "cli_convert_audio env makedirs_raises input_path output_format sample_rate bitrate output_dir =
     (case map_of AUDIO_FORMATS output_format of
        None \<Rightarrow> (Inl (ValueError (''Unsupported format: '' @ output_format)), [])
      | Some format_info \<Rightarrow>
          (case makedirs_raises output_dir of
             Some e \<Rightarrow> (Inl e, [])
           | None \<Rightarrow>
               (let output_path = cli_output_path input_path format_info output_dir;
                    ps = audio_params format_info sample_rate bitrate
                in case ffmpeg_run env input_path output_path ps of
                     Run_ok \<Rightarrow> (Inr (Some output_path), [(input_path, output_path, ps)])
                   | Run_ffmpeg_error stderr \<Rightarrow> (Inr None, [(input_path, output_path, ps)])
                   | Run_raises e \<Rightarrow> (Inl e, [(input_path, output_path, ps)]))))"

text \<open>\<open>str(n)\<close> for an integer: its decimal digits.\<close>

definition digit_char :: "nat \<Rightarrow> char" where
  "digit_char d = ''0123456789'' ! d"

fun show_nat :: "nat \<Rightarrow> string" where
  "show_nat n = (if n < 10 then [digit_char n] else show_nat (n div 10) @ [digit_char (n mod 10)])"

declare show_nat.simps [simp del]

definition show_int :: "int \<Rightarrow> string" where
  "show_int i = (if i < 0 then ''-'' @ show_nat (nat (- i)) else show_nat (nat i))"

text \<open>
  The name tried in round \<open>counter\<close> of the loop of \<open>ConversionThread._convert_audio\<close>.
\<close>

definition numbered_path :: "string \<Rightarrow> string \<Rightarrow> string \<Rightarrow> nat \<Rightarrow> string" where
  "numbered_path output_dir base_name output_format counter =
     os_path_join output_dir (base_name @ ''_'' @ show_nat counter @ ''.'' @ output_format)"

text \<open>
  The loop \<open>while os.path.exists(output_path)\<close> of \<open>_convert_audio\<close>, over the paths
  that exist. Nothing in the loop itself bounds it, so it is a partial function; that it
  returns is a theorem below.
\<close>

partial_function (option) suffix_loop ::
  "string list \<Rightarrow> string \<Rightarrow> string \<Rightarrow> string \<Rightarrow> nat \<Rightarrow> string \<Rightarrow> string option" where
  "suffix_loop existing output_dir base_name output_format counter out_path =
     (if out_path \<in> set existing then
        suffix_loop existing output_dir base_name output_format (counter + 1)
          (numbered_path output_dir base_name output_format counter)
      else Some out_path)"

definition gui_output_path :: "string list \<Rightarrow> string \<Rightarrow> string \<Rightarrow> string \<Rightarrow> string option" where
  "gui_output_path existing output_dir base_name output_format =
     suffix_loop existing output_dir base_name output_format 1
       (os_path_join output_dir (base_name @ ''.'' @ output_format))"

section \<open>The desktop front end (\<open>audio_converter_gui.py\<close>, \<open>ConversionThread\<close>)\<close>

text \<open>
  The dictionary the downloader passes to a progress hook; \<open>downloaded_bytes\<close> and
  \<open>total_bytes\<close> may be missing from it.
\<close>

record progress_dict =
  d_status :: string
  downloaded_bytes :: "int option"
  total_bytes :: "int option"

text \<open>\<open>int(x)\<close> truncates towards zero.\<close>

definition py_int :: "rat \<Rightarrow> int" where
  "py_int x = (if 0 \<le> x then \<lfloor>x\<rfloor> else \<lceil>x\<rceil>)"

text \<open>
  \<open>_youtube_progress_hook\<close>: the signal it emits, if any. The quotient is computed
  here as an exact fraction; Python computes it in double precision, which gives the same
  value wherever the quotient and its products are whole numbers below \<open>2 ^ 53\<close>.
  Elsewhere the rounding of Python can change the digits of the message, and in rare
  cases the percentage by one; nothing below is stated about such inputs.
\<close>

definition youtube_progress_hook :: "progress_dict \<Rightarrow> exn + (int \<times> string) option" where
  "youtube_progress_hook d =
     (if d_status d = ''downloading'' then
        (let db = (case downloaded_bytes d of None \<Rightarrow> 0 | Some b \<Rightarrow> b);
             tb = (case total_bytes d of None \<Rightarrow> 1 | Some t \<Rightarrow> t)
         in if tb = 0 then Inl (ZeroDivisionError ''division by zero'')
            else (let percent = (of_int db / of_int tb * 50 :: rat)
                  in Inr (Some (py_int (20 + percent),
                                ''Downloading... '' @ show_int (py_int (percent * 2)) @ ''%''))))
      else Inr None)"

text \<open>
  The state of one conversion thread: the names listed in the output directory, the
  \<open>progress\<close> and \<open>finished\<close> signals emitted so far, and the encoder invocations.
\<close>

record gui_state =
  dir_files :: "string list"
  emitted :: "(int \<times> string) list"
  finished_signals :: "(bool \<times> string) list"
  gui_ffmpeg_calls :: "(string \<times> string \<times> params) list"

definition emit :: "int \<times> string \<Rightarrow> gui_state \<Rightarrow> gui_state" where
  "emit sig st = st\<lparr>emitted := emitted st @ [sig]\<rparr>"

text \<open>
  The hook calls the downloader makes during one download, in order; an exception of a
  hook ends the download.
\<close>

fun run_hooks :: "progress_dict list \<Rightarrow> gui_state \<Rightarrow> exn option \<times> gui_state" where
  "run_hooks [] st = (None, st)"
| "run_hooks (d # ds) st =
     (case youtube_progress_hook d of
        Inl e \<Rightarrow> (Some e, st)
      | Inr None \<Rightarrow> run_hooks ds st
      | Inr (Some sig) \<Rightarrow> run_hooks ds (emit sig st))"

definition gui_download_youtube ::
  "env \<Rightarrow> progress_dict list \<Rightarrow> string \<Rightarrow> string \<Rightarrow> gui_state \<Rightarrow>
     (exn + (string \<times> string) option) \<times> gui_state" where
  "gui_download_youtube env hook_dicts output_dir url st =
     (let st1 = emit (10, ''Connecting to YouTube...'') st;
          output_path = os_path_join output_dir ''youtube_temp_%(title)s.%(ext)s'';
          st2 = emit (20, ''Downloading audio...'') st1;
          h = run_hooks hook_dicts st2
      in case fst h of
           Some e \<Rightarrow> (Inl (Exception (''YouTube download failed: '' @ str_exn e)), snd h)
         | None \<Rightarrow>
             (let r = extract_info env url output_path (dir_files st);
                  st3 = (snd h)\<lparr>dir_files := snd r\<rparr>
              in case fst r of
                   Inl e \<Rightarrow> (Inl (Exception (''YouTube download failed: '' @ str_exn e)), st3)
                 | Inr info_title \<Rightarrow>
                     (let title = (case info_title of None \<Rightarrow> ''Unknown'' | Some t \<Rightarrow> t) in
                      case find (\<lambda>file. prefix ''youtube_temp_'' file \<and> suffix ''.mp3'' file)
                             (dir_files st3) of
                        Some file \<Rightarrow> (Inr (Some (os_path_join output_dir file, title)), st3)
                      | None \<Rightarrow> (Inr None, st3))))"

text \<open>
  The base name made from a title: the characters that are alphanumeric, a space, a
  hyphen or an underscore, without trailing blanks. Characters are bytes here, and
  \<open>isalnum\<close> is the ASCII one.
\<close>

definition isalnum :: "char \<Rightarrow> bool" where
  "isalnum c =
     (c \<in> set ''abcdefghijklmnopqrstuvwxyzABCDEFGHIJKLMNOPQRSTUVWXYZ0123456789'')"

definition title_base_name :: "string \<Rightarrow> string" where
  "title_base_name title =
     rev (dropWhile (\<lambda>c. c = CHR '' '')
       (rev (filter (\<lambda>c. isalnum c \<or> c \<in> set '' -_'') title)))"

definition gui_exists :: "string \<Rightarrow> gui_state \<Rightarrow> string \<Rightarrow> bool" where
  "gui_exists output_dir st p = (p \<in> set (map (os_path_join output_dir) (dir_files st)))"

text \<open>
  \<open>_convert_audio\<close>; the result is \<open>None\<close> when the naming loop does not return.
\<close>

definition gui_convert_audio ::
  "env \<Rightarrow> string \<Rightarrow> string \<Rightarrow> params \<Rightarrow> string \<Rightarrow> string option \<Rightarrow> gui_state \<Rightarrow>
     ((exn + string) \<times> gui_state) option" where
  "gui_convert_audio env output_dir output_format settings input_path title st =
     (let st1 = emit (70, ''Converting audio...'') st;
          base_name = (case title of
                         None \<Rightarrow> path_stem input_path
                       | Some t \<Rightarrow> (if t \<noteq> [] then title_base_name t
                                    else path_stem input_path))
      in case gui_output_path (map (os_path_join output_dir) (dir_files st1))
                output_dir base_name output_format of
           None \<Rightarrow> None
         | Some out \<Rightarrow>
             (let ps = get_audio_params output_format settings;
                  st2 = st1\<lparr>gui_ffmpeg_calls := gui_ffmpeg_calls st1 @ [(input_path, out, ps)]\<rparr>
              in case ffmpeg_run env input_path out ps of
                   Run_ok \<Rightarrow> Some (Inr out, emit (90, ''Finalizing...'') st2)
                 | Run_ffmpeg_error stderr \<Rightarrow>
                     Some (Inl (Exception (''Conversion failed: '' @
                        (if stderr \<noteq> [] then stderr
                         else ''ffmpeg error (see stderr output for detail)''))), st2)
                 | Run_raises e \<Rightarrow> Some (Inl e, st2)))"

text \<open>The end of the \<open>try\<close> block of \<open>run\<close> and its \<open>except\<close> handler.\<close>

definition gui_finish :: "exn + string \<Rightarrow> gui_state \<Rightarrow> gui_state" where
  "gui_finish r st =
     (case r of
        Inr out \<Rightarrow>
          (let st1 = emit (100, ''Completed!'') st
           in st1\<lparr>finished_signals := finished_signals st1 @ [(True, out)]\<rparr>)
      | Inl e \<Rightarrow> st\<lparr>finished_signals := finished_signals st @ [(False, str_exn e)]\<rparr>)"

text \<open>
  The \<open>finally\<close> block of \<open>run\<close>: the temporary file is removed if it exists, and an
  exception of the removal is dropped.
\<close>

definition gui_cleanup :: "env \<Rightarrow> string \<Rightarrow> string \<Rightarrow> gui_state \<Rightarrow> gui_state" where
  "gui_cleanup env output_dir temp_file st =
     (if temp_file \<noteq> [] \<and> gui_exists output_dir st temp_file then
        (case remove_raises env temp_file of
           Some e \<Rightarrow> st
         | None \<Rightarrow>
             st\<lparr>dir_files := filter (\<lambda>f. os_path_join output_dir f \<noteq> temp_file) (dir_files st)\<rparr>)
      else st)"

definition gui_run ::
  "env \<Rightarrow> progress_dict list \<Rightarrow> string \<Rightarrow> string \<Rightarrow> string \<Rightarrow> params \<Rightarrow> gui_state \<Rightarrow>
     gui_state option" where
  "gui_run env hook_dicts source output_format output_dir settings st =
     (if gui_is_youtube_url (PStr source) then
        (let d = gui_download_youtube env hook_dicts output_dir source st
         in case fst d of
              Inl e \<Rightarrow> Some (gui_finish (Inl e) (snd d))
            | Inr None \<Rightarrow>
                Some (gui_finish (Inl (TypeError ''cannot unpack non-iterable NoneType object''))
                        (snd d))
            | Inr (Some (temp_file, title)) \<Rightarrow>
                (case gui_convert_audio env output_dir output_format settings temp_file
                        (Some title) (snd d) of
                   None \<Rightarrow> None
                 | Some c \<Rightarrow> Some (gui_cleanup env output_dir temp_file (gui_finish (fst c) (snd c)))))
      else
        (case gui_convert_audio env output_dir output_format settings source None st of
           None \<Rightarrow> None
         | Some c \<Rightarrow> Some (gui_finish (fst c) (snd c))))"

text \<open>
  The answers by which the route itself refuses a request.
\<close>

fun explicit_error :: "response \<Rightarrow> bool" where
  "explicit_error (Json_error m c) = True"
| "explicit_error (Attachment p n) = False"
| "explicit_error (Unhandled e) = False"

section \<open>The conversion request of the specification\<close>

text \<open>
  The specification types the optional fields of a conversion request: the sample rate
  is a positive integer or absent, the bitrate is a bitrate string such as \<open>128k\<close> (a
  string that is not empty) or absent, the channel count is a positive integer or
  absent. An absent field is \<open>None\<close>. These predicates say that a value is of that
  type; they are the specification's, not code of the repository.
\<close>

definition valid_sample_rate :: "pyval \<Rightarrow> bool" where
  "valid_sample_rate v = (case v of PNone \<Rightarrow> True | PInt n \<Rightarrow> 0 < n | PStr s \<Rightarrow> False)"

definition valid_bitrate :: "pyval \<Rightarrow> bool" where
  "valid_bitrate v = (case v of PNone \<Rightarrow> True | PInt n \<Rightarrow> False | PStr s \<Rightarrow> s \<noteq> [])"

definition valid_channels :: "pyval \<Rightarrow> bool" where
  "valid_channels v = (case v of PNone \<Rightarrow> True | PInt n \<Rightarrow> 0 < n | PStr s \<Rightarrow> False)"

section \<open>Sample inputs\<close>

text \<open>
  A job id as \<open>str(uuid.uuid4())\<close> makes them; a downloader that delivers the file
  \<open>{job_id}_youtube.mp3\<close> of a video titled \<open>Song\<close>, an encoder that succeeds and a
  removal that succeeds; and the state after one job has been submitted.
\<close>

definition demo_job_id :: string where
  "demo_job_id = ''123e4567-e89b-42d3-a456-426614174000''"

definition demo_env :: env where
  "demo_env =
     \<lparr>extract_info =
        (\<lambda>url outtmpl listing. (Inr (Some ''Song''), listing @ [demo_job_id @ ''_youtube.mp3''])),
      ffmpeg_run = (\<lambda>i out ps. Run_ok),
      remove_raises = (\<lambda>p. None)\<rparr>"

definition demo_state :: state where
  "demo_state = submit_job demo_job_id ''Unknown'' empty_state"

text \<open>
  For the desktop front end: a downloader that writes \<open>youtube_temp_Song.mp3\<close> into the
  output directory, and a thread that has emitted nothing yet in an empty directory.
\<close>

definition gui_demo_env :: env where
  "gui_demo_env =
     \<lparr>extract_info =
        (\<lambda>url outtmpl listing. (Inr (Some ''Song''), listing @ [''youtube_temp_Song.mp3''])),
      ffmpeg_run = (\<lambda>i out ps. Run_ok),
      remove_raises = (\<lambda>p. None)\<rparr>"

definition gui_empty_state :: gui_state where
  "gui_empty_state = \<lparr>dir_files = [], emitted = [], finished_signals = [],
                       gui_ffmpeg_calls = []\<rparr>"

section \<open>Basic facts about the model\<close>

lemma set_job_fields [simp]:
  "temp_dir (set_job j f st) = temp_dir st"
  "ydl_calls (set_job j f st) = ydl_calls st"
  "ffmpeg_calls (set_job j f st) = ffmpeg_calls st"
  by (simp_all add: set_job_def split: option.splits)

lemma set_job_jobs [simp]:
  "conversion_jobs (set_job j f st) k =
     (if k = j then map_option f (conversion_jobs st j) else conversion_jobs st k)"
  by (simp add: set_job_def split: option.splits)

lemma set_job_Some:
  "conversion_jobs st j = Some x \<Longrightarrow>
   set_job j f st = st\<lparr>conversion_jobs := (conversion_jobs st)(j \<mapsto> f x),
                       history := history st @ [(j, f x)]\<rparr>"
  by (simp add: set_job_def)

lemma download_fields [simp]:
  "conversion_jobs (snd (download_youtube_audio env url j st)) = conversion_jobs st"
  "ffmpeg_calls (snd (download_youtube_audio env url j st)) = ffmpeg_calls st"
  "history (snd (download_youtube_audio env url j st)) = history st"
  "ydl_calls (snd (download_youtube_audio env url j st)) = ydl_calls st @ [url]"
  "temp_dir (snd (download_youtube_audio env url j st)) =
     snd (extract_info env url (os_path_join ''temp'' (j @ ''_youtube.%(ext)s'')) (temp_dir st))"
  by (simp_all add: download_youtube_audio_def Let_def split: sum.splits option.splits)

lemma convert_fields [simp]:
  "conversion_jobs (snd (convert_audio env i fmt sr br j st)) = conversion_jobs st"
  "history (snd (convert_audio env i fmt sr br j st)) = history st"
  "ydl_calls (snd (convert_audio env i fmt sr br j st)) = ydl_calls st"
  "temp_dir (snd (convert_audio env i fmt sr br j st)) = temp_dir st"
  by (simp_all add: convert_audio_def Let_def split: option.splits run_outcome.splits)

lemma audio_params_acodec: "audio_params fi sr br ''acodec'' = Some (PStr (codec fi))"
  by (simp add: audio_params_def Let_def)

lemma audio_params_ar: "audio_params fi sr br ''ar'' = (if truthy sr then Some sr else None)"
  by (simp add: audio_params_def Let_def)

lemma audio_params_bitrate:
  "audio_params fi sr br ''audio_bitrate'' = (if truthy br then Some br else None)"
  by (simp add: audio_params_def Let_def)

lemma audio_params_dom:
  "dom (audio_params fi sr br) =
     {''acodec''} \<union> (if truthy sr then {''ar''} else {})
       \<union> (if truthy br then {''audio_bitrate''} else {})"
  by (auto simp add: audio_params_def Let_def split: if_splits)

lemma convert_audio_calls:
  "map_of AUDIO_FORMATS fmt = Some fi \<Longrightarrow>
   ffmpeg_calls (snd (convert_audio env i fmt sr br j st)) =
     ffmpeg_calls st @ [(i, web_output_path i fi j, audio_params fi sr br)]"
  by (simp add: convert_audio_def Let_def split: run_outcome.splits)

lemma convert_audio_unsupported:
  "map_of AUDIO_FORMATS fmt = None \<Longrightarrow>
   convert_audio env i fmt sr br j st = (Inl (ValueError (''Unsupported format: '' @ fmt)), st)"
  by (simp add: convert_audio_def)

lemma codec_map_agrees:
  "map_of AUDIO_FORMATS fmt = Some fi \<Longrightarrow> map_of codec_map fmt = Some (codec fi)"
  by (auto simp add: AUDIO_FORMATS_def codec_map_def split: if_splits)

lemma get_audio_params_keys:
  "get_audio_params fmt s ''ar'' =
     (if truthy (dict_get s ''sample_rate'') then Some (dict_get s ''sample_rate'') else None)"
  "get_audio_params fmt s ''audio_bitrate'' =
     (if truthy (dict_get s ''bitrate'') then Some (dict_get s ''bitrate'') else None)"
  "get_audio_params fmt s ''ac'' =
     (if truthy (dict_get s ''channels'') then Some (dict_get s ''channels'') else None)"
  "get_audio_params fmt s ''acodec'' =
     Some (PStr (case map_of codec_map fmt of None \<Rightarrow> ''copy'' | Some c \<Rightarrow> c))"
  by (simp_all add: get_audio_params_def Let_def)

section \<open>Encoder parameters are an overlay of the fields given\<close>

lemma valid_truthy:
  "valid_sample_rate v \<Longrightarrow> truthy v = (v \<noteq> PNone)"
  "valid_bitrate v \<Longrightarrow> truthy v = (v \<noteq> PNone)"
  "valid_channels v \<Longrightarrow> truthy v = (v \<noteq> PNone)"
  by (cases v; simp add: valid_sample_rate_def valid_bitrate_def valid_channels_def)+

lemma get_audio_params_dom:
  "dom (get_audio_params fmt s) =
     {''acodec''} \<union> (if truthy (dict_get s ''sample_rate'') then {''ar''} else {})
       \<union> (if truthy (dict_get s ''bitrate'') then {''audio_bitrate''} else {})
       \<union> (if truthy (dict_get s ''channels'') then {''ac''} else {})"
  by (auto simp add: get_audio_params_def Let_def split: if_splits)

text \<open>
  C1. For every conversion request (a format of the catalog, and optional fields of the
  types the specification gives them), the encoder is invoked with a parameter map that
  holds the catalog's codec under \<open>acodec\<close>, the sample rate under \<open>ar\<close> if and only if
  the request specifies one, the bitrate under \<open>audio_bitrate\<close> if and only if the
  request specifies one, and no other key. The map that the desktop front end builds
  from its settings is the same overlay, with the channel count under \<open>ac\<close> if and only
  if the settings give one, and no other key. So a field left out is never a parameter.
  (The values \<open>0\<close> and the empty string, which are outside these types, are the
  subject of the next section.)
\<close>

theorem encoder_params_of_request:
  assumes fmt: "map_of AUDIO_FORMATS output_format = Some fi"
    and sr: "valid_sample_rate sample_rate"
    and br: "valid_bitrate bitrate"
    and ssr: "valid_sample_rate (dict_get settings ''sample_rate'')"
    and sbr: "valid_bitrate (dict_get settings ''bitrate'')"
    and sch: "valid_channels (dict_get settings ''channels'')"
  shows "\<exists>out ps.
           ffmpeg_calls (snd (convert_audio env input_path output_format sample_rate bitrate
                                job_id st))
             = ffmpeg_calls st @ [(input_path, out, ps)]
         \<and> ps ''acodec'' = Some (PStr (codec fi))
         \<and> (''ar'' \<in> dom ps \<longleftrightarrow> sample_rate \<noteq> PNone)
         \<and> (''audio_bitrate'' \<in> dom ps \<longleftrightarrow> bitrate \<noteq> PNone)
         \<and> ps ''ar'' = (if sample_rate = PNone then None else Some sample_rate)
         \<and> ps ''audio_bitrate'' = (if bitrate = PNone then None else Some bitrate)
         \<and> dom ps \<subseteq> {''acodec'', ''ar'', ''audio_bitrate''}
         \<and> get_audio_params output_format settings ''acodec'' = Some (PStr (codec fi))
         \<and> (''ar'' \<in> dom (get_audio_params output_format settings)
               \<longleftrightarrow> dict_get settings ''sample_rate'' \<noteq> PNone)
         \<and> (''audio_bitrate'' \<in> dom (get_audio_params output_format settings)
               \<longleftrightarrow> dict_get settings ''bitrate'' \<noteq> PNone)
         \<and> (''ac'' \<in> dom (get_audio_params output_format settings)
               \<longleftrightarrow> dict_get settings ''channels'' \<noteq> PNone)
         \<and> get_audio_params output_format settings ''ar'' =
             (if dict_get settings ''sample_rate'' = PNone then None
              else Some (dict_get settings ''sample_rate''))
         \<and> get_audio_params output_format settings ''audio_bitrate'' =
             (if dict_get settings ''bitrate'' = PNone then None
              else Some (dict_get settings ''bitrate''))
         \<and> get_audio_params output_format settings ''ac'' =
             (if dict_get settings ''channels'' = PNone then None
              else Some (dict_get settings ''channels''))
         \<and> dom (get_audio_params output_format settings)
               \<subseteq> {''acodec'', ''ar'', ''audio_bitrate'', ''ac''}"
proof -
  let ?ps = "audio_params fi sample_rate bitrate"
  let ?gp = "get_audio_params output_format settings"
  have web: "?ps ''acodec'' = Some (PStr (codec fi))"
      "(''ar'' \<in> dom ?ps \<longleftrightarrow> sample_rate \<noteq> PNone)"
      "(''audio_bitrate'' \<in> dom ?ps \<longleftrightarrow> bitrate \<noteq> PNone)"
      "?ps ''ar'' = (if sample_rate = PNone then None else Some sample_rate)"
      "?ps ''audio_bitrate'' = (if bitrate = PNone then None else Some bitrate)"
      "dom ?ps \<subseteq> {''acodec'', ''ar'', ''audio_bitrate''}"
    by (simp_all add: audio_params_acodec audio_params_ar audio_params_bitrate
        audio_params_dom domIff valid_truthy(1) [OF sr] valid_truthy(2) [OF br])
  have gui: "?gp ''acodec'' = Some (PStr (codec fi))"
      "(''ar'' \<in> dom ?gp \<longleftrightarrow> dict_get settings ''sample_rate'' \<noteq> PNone)"
      "(''audio_bitrate'' \<in> dom ?gp \<longleftrightarrow> dict_get settings ''bitrate'' \<noteq> PNone)"
      "(''ac'' \<in> dom ?gp \<longleftrightarrow> dict_get settings ''channels'' \<noteq> PNone)"
      "?gp ''ar'' = (if dict_get settings ''sample_rate'' = PNone then None
                     else Some (dict_get settings ''sample_rate''))"
      "?gp ''audio_bitrate'' = (if dict_get settings ''bitrate'' = PNone then None
                     else Some (dict_get settings ''bitrate''))"
      "?gp ''ac'' = (if dict_get settings ''channels'' = PNone then None
                     else Some (dict_get settings ''channels''))"
      "dom ?gp \<subseteq> {''acodec'', ''ar'', ''audio_bitrate'', ''ac''}"
    by (simp_all add: get_audio_params_keys get_audio_params_dom domIff
        codec_map_agrees [OF fmt] valid_truthy(1) [OF ssr] valid_truthy(2) [OF sbr]
        valid_truthy(3) [OF sch])
  show ?thesis
    apply (intro exI [of _ "web_output_path input_path fi job_id"] exI [of _ ?ps])
    apply (simp only: convert_audio_calls [OF fmt] web gui simp_thms)
    done
qed

theorem encoder_params_of_request_witness:
  "map_of AUDIO_FORMATS ''ogg'' = Some \<lparr>ext = ''ogg'', codec = ''libvorbis''\<rparr>
   \<and> valid_sample_rate (PInt 32000) \<and> valid_bitrate PNone
   \<and> valid_sample_rate (dict_get [''bitrate'' \<mapsto> PStr ''128k''] ''sample_rate'')
   \<and> valid_bitrate (dict_get [''bitrate'' \<mapsto> PStr ''128k''] ''bitrate'')
   \<and> valid_channels (dict_get [''bitrate'' \<mapsto> PStr ''128k''] ''channels'')
   \<and> (\<exists>out ps.
           ffmpeg_calls (snd (convert_audio demo_env ''song.mp3'' ''ogg'' (PInt 32000) PNone
                                (Some demo_job_id) empty_state))
             = ffmpeg_calls empty_state @ [(''song.mp3'', out, ps)]
         \<and> ps ''acodec'' = Some (PStr ''libvorbis'')
         \<and> ''ar'' \<in> dom ps
         \<and> ''audio_bitrate'' \<notin> dom ps
         \<and> ps ''ar'' = Some (PInt 32000)
         \<and> dom ps \<subseteq> {''acodec'', ''ar'', ''audio_bitrate''})
   \<and> get_audio_params ''ogg'' [''bitrate'' \<mapsto> PStr ''128k''] ''acodec''
       = Some (PStr ''libvorbis'')
   \<and> ''ar'' \<notin> dom (get_audio_params ''ogg'' [''bitrate'' \<mapsto> PStr ''128k''])
   \<and> ''audio_bitrate'' \<in> dom (get_audio_params ''ogg'' [''bitrate'' \<mapsto> PStr ''128k''])
   \<and> ''ac'' \<notin> dom (get_audio_params ''ogg'' [''bitrate'' \<mapsto> PStr ''128k''])
   \<and> get_audio_params ''ogg'' [''bitrate'' \<mapsto> PStr ''128k''] ''audio_bitrate''
       = Some (PStr ''128k'')"
proof -
  let ?s = "[''bitrate'' \<mapsto> PStr ''128k'']"
  have h: "map_of AUDIO_FORMATS ''ogg'' = Some \<lparr>ext = ''ogg'', codec = ''libvorbis''\<rparr>"
    by (simp add: AUDIO_FORMATS_def)
  have v1: "valid_sample_rate (PInt 32000)" and v2: "valid_bitrate PNone"
    by (simp_all add: valid_sample_rate_def valid_bitrate_def)
  have v3: "valid_sample_rate (dict_get ?s ''sample_rate'')"
    and v4: "valid_bitrate (dict_get ?s ''bitrate'')"
    and v5: "valid_channels (dict_get ?s ''channels'')"
    by (simp_all add: valid_sample_rate_def valid_bitrate_def valid_channels_def dict_get_def)
  have d: "dict_get ?s ''sample_rate'' = PNone" "dict_get ?s ''bitrate'' = PStr ''128k''"
    "dict_get ?s ''channels'' = PNone"
    by (simp_all add: dict_get_def)
  from encoder_params_of_request [OF h v1 v2 v3 v4 v5, of demo_env "''song.mp3''"
      "Some demo_job_id" empty_state]
  have "(\<exists>out ps.
           ffmpeg_calls (snd (convert_audio demo_env ''song.mp3'' ''ogg'' (PInt 32000) PNone
                                (Some demo_job_id) empty_state))
             = ffmpeg_calls empty_state @ [(''song.mp3'', out, ps)]
         \<and> ps ''acodec'' = Some (PStr ''libvorbis'')
         \<and> ''ar'' \<in> dom ps
         \<and> ''audio_bitrate'' \<notin> dom ps
         \<and> ps ''ar'' = Some (PInt 32000)
         \<and> dom ps \<subseteq> {''acodec'', ''ar'', ''audio_bitrate''})
   \<and> get_audio_params ''ogg'' ?s ''acodec'' = Some (PStr ''libvorbis'')
   \<and> ''ar'' \<notin> dom (get_audio_params ''ogg'' ?s)
   \<and> ''audio_bitrate'' \<in> dom (get_audio_params ''ogg'' ?s)
   \<and> ''ac'' \<notin> dom (get_audio_params ''ogg'' ?s)
   \<and> get_audio_params ''ogg'' ?s ''audio_bitrate'' = Some (PStr ''128k'')"
    by (simp add: d) blast
  with h v1 v2 v3 v4 v5 show ?thesis by blast
qed

section \<open>A zero sample rate and an empty bitrate count as absent\<close>

text \<open>
  C9. The converters test the optional fields by truthiness: a sample rate of \<open>0\<close> and
  an empty bitrate give the same parameters as \<open>None\<close>, without an \<open>ar\<close> or
  \<open>audio_bitrate\<close> key, in the web and command-line converters (\<open>audio_params\<close>) and in
  the desktop one (\<open>get_audio_params\<close>); so no request makes \<open>ar\<close> equal to \<open>0\<close>.
\<close>

theorem falsy_fields_absent:
  "audio_params fi (PInt 0) bitrate = audio_params fi PNone bitrate
   \<and> audio_params fi sample_rate (PStr []) = audio_params fi sample_rate PNone
   \<and> ''ar'' \<notin> dom (audio_params fi (PInt 0) bitrate)
   \<and> ''audio_bitrate'' \<notin> dom (audio_params fi sample_rate (PStr []))
   \<and> audio_params fi sample_rate bitrate ''ar'' \<noteq> Some (PInt 0)
   \<and> ''ar'' \<notin> dom (get_audio_params output_format (settings(''sample_rate'' \<mapsto> PInt 0)))
   \<and> ''audio_bitrate'' \<notin> dom (get_audio_params output_format (settings(''bitrate'' \<mapsto> PStr [])))
   \<and> get_audio_params output_format settings ''ar'' \<noteq> Some (PInt 0)"
  by (auto simp add: audio_params_def Let_def domIff get_audio_params_keys dict_get_def)

section \<open>A download that leaves no file\<close>

text \<open>
  C10. When the extractor returns without an exception and no name listed in \<open>temp\<close>
  starts with \<open>{job_id}_youtube\<close>, \<open>download_youtube_audio\<close> returns \<open>None\<close> and raises
  nothing; the runner's unpacking of that \<open>None\<close> raises a \<open>TypeError\<close>, which the
  handler records: the job ends failed with that generic text as its error, and the
  encoder is not invoked.
\<close>

theorem download_without_file:
  assumes info: "fst (extract_info env url (os_path_join ''temp'' (job_id @ ''_youtube.%(ext)s''))
                       (temp_dir st)) = Inr info_title"
    and nofile: "\<forall>file \<in> set (snd (extract_info env url
                       (os_path_join ''temp'' (job_id @ ''_youtube.%(ext)s'')) (temp_dir st))).
                   \<not> prefix (job_id @ ''_youtube'') file"
    and job: "conversion_jobs st job_id = Some j"
  shows "fst (download_youtube_audio env url job_id st) = Inr None
       \<and> (\<exists>st' j'. process_conversion_job env job_id ''youtube'' url output_format
                       sample_rate bitrate st = Inr st'
            \<and> conversion_jobs st' job_id = Some j'
            \<and> status j' = Failed
            \<and> error j' = Some ''cannot unpack non-iterable NoneType object''
            \<and> message j' = ''Error: cannot unpack non-iterable NoneType object''
            \<and> output_path j' = output_path j
            \<and> ffmpeg_calls st' = ffmpeg_calls st)"
proof -
  let ?tmpl = "os_path_join ''temp'' (job_id @ ''_youtube.%(ext)s'')"
  have none: "find (\<lambda>file. prefix (job_id @ ''_youtube'') file)
                (snd (extract_info env url ?tmpl (temp_dir st))) = None"
    using nofile by (simp add: find_None_iff)
  have dl: "\<And>s. temp_dir s = temp_dir st \<Longrightarrow>
                fst (download_youtube_audio env url job_id s) = Inr None"
    using info none by (simp add: download_youtube_audio_def Let_def)
  have first: "fst (download_youtube_audio env url job_id st) = Inr None"
    by (rule dl) simp
  show ?thesis
    using first job
    apply (simp add: process_conversion_job_def try_body_def Let_def)
    apply (simp add: acquire_input_def Let_def dl)
    done
qed

theorem download_without_file_witness:
  "fst (extract_info (demo_env\<lparr>extract_info := (\<lambda>url outtmpl listing. (Inr (Some ''Song''), listing))\<rparr>)
          ''https://youtu.be/abc'' (os_path_join ''temp'' (demo_job_id @ ''_youtube.%(ext)s''))
          (temp_dir demo_state)) = Inr (Some ''Song'')
   \<and> snd (extract_info (demo_env\<lparr>extract_info := (\<lambda>url outtmpl listing. (Inr (Some ''Song''), listing))\<rparr>)
          ''https://youtu.be/abc'' (os_path_join ''temp'' (demo_job_id @ ''_youtube.%(ext)s''))
          (temp_dir demo_state)) = []
   \<and> conversion_jobs demo_state demo_job_id = Some (queued_job demo_job_id ''Unknown'')
   \<and> fst (download_youtube_audio (demo_env\<lparr>extract_info := (\<lambda>url outtmpl listing. (Inr (Some ''Song''), listing))\<rparr>)
            ''https://youtu.be/abc'' demo_job_id demo_state) = Inr None
   \<and> (\<exists>st' j'. process_conversion_job (demo_env\<lparr>extract_info := (\<lambda>url outtmpl listing. (Inr (Some ''Song''), listing))\<rparr>)
                   demo_job_id ''youtube'' ''https://youtu.be/abc'' ''ogg'' PNone PNone demo_state = Inr st'
            \<and> conversion_jobs st' demo_job_id = Some j'
            \<and> status j' = Failed
            \<and> error j' = Some ''cannot unpack non-iterable NoneType object'')"
proof -
  let ?env = "demo_env\<lparr>extract_info := (\<lambda>url outtmpl listing. (Inr (Some ''Song''), listing))\<rparr>"
  let ?tmpl = "os_path_join ''temp'' (demo_job_id @ ''_youtube.%(ext)s'')"
  have h1: "fst (extract_info ?env ''https://youtu.be/abc'' ?tmpl (temp_dir demo_state)) = Inr (Some ''Song'')"
    by simp
  have h2: "\<forall>file \<in> set (snd (extract_info ?env ''https://youtu.be/abc'' ?tmpl (temp_dir demo_state))).
              \<not> prefix (demo_job_id @ ''_youtube'') file"
    by (simp add: demo_state_def submit_job_def empty_state_def)
  have h3: "conversion_jobs demo_state demo_job_id = Some (queued_job demo_job_id ''Unknown'')"
    by (simp add: demo_state_def submit_job_def empty_state_def)
  have h2': "snd (extract_info ?env ''https://youtu.be/abc'' ?tmpl (temp_dir demo_state)) = []"
    by (simp add: demo_state_def submit_job_def empty_state_def)
  show ?thesis
    using h1 h2' h3 download_without_file [OF h1 h2 h3, of "''ogg''" PNone PNone]
    by blast
qed

section \<open>An unsupported format\<close>

lemma demo_jobs:
  "conversion_jobs demo_state demo_job_id = Some (queued_job demo_job_id ''Unknown'')"
  by (simp add: demo_state_def submit_job_def empty_state_def)

lemma demo_fields:
  "temp_dir demo_state = []" "ydl_calls demo_state = []" "ffmpeg_calls demo_state = []"
  "history demo_state = [(demo_job_id, queued_job demo_job_id ''Unknown'')]"
  by (simp_all add: demo_state_def submit_job_def empty_state_def)

lemma mp4a_unsupported: "map_of AUDIO_FORMATS ''mp4a'' = None"
  by (simp add: AUDIO_FORMATS_def)

text \<open>
  C2, as amended. For a job whose format id is not in the catalog, the encoder is never
  invoked and the job ends failed, with no output path. A job for an uploaded file fails
  with the unsupported-format error and nothing is downloaded. A remote job is downloaded
  first, since the catalog is consulted inside \<open>convert_audio\<close>, after the acquisition:
  the download is performed, and the job fails with the unsupported-format error when
  the download delivers a file.
\<close>

theorem unsupported_format_fails:
  assumes fmt: "map_of AUDIO_FORMATS output_format = None"
    and job: "conversion_jobs st job_id = Some j"
  shows "\<exists>st' j'. process_conversion_job env job_id source_type source_data output_format
                     sample_rate bitrate st = Inr st'
           \<and> conversion_jobs st' job_id = Some j'
           \<and> status j' = Failed
           \<and> output_path j' = output_path j
           \<and> ffmpeg_calls st' = ffmpeg_calls st
           \<and> (source_type \<noteq> ''youtube'' \<longrightarrow>
                 ydl_calls st' = ydl_calls st
               \<and> error j' = Some (''Unsupported format: '' @ output_format))
           \<and> (source_type = ''youtube'' \<longrightarrow>
                 ydl_calls st' = ydl_calls st @ [source_data]
               \<and> (\<forall>p. fst (download_youtube_audio env source_data job_id st) = Inr (Some p) \<longrightarrow>
                     error j' = Some (''Unsupported format: '' @ output_format)))"
proof (cases "source_type = ''youtube''")
  case False
  then show ?thesis
    using job
    by (simp add: process_conversion_job_def try_body_def acquire_input_def Let_def
        convert_audio_unsupported [OF fmt])
next
  case True
  define res where "res = fst (download_youtube_audio env source_data job_id st)"
  have same: "\<And>s. temp_dir s = temp_dir st \<Longrightarrow>
     fst (download_youtube_audio env source_data job_id s) = res"
    unfolding res_def
    by (simp add: download_youtube_audio_def Let_def split: sum.splits option.splits)
  show ?thesis
  proof (cases res)
    case (Inl e)
    then show ?thesis using True job
      by (simp add: process_conversion_job_def try_body_def acquire_input_def Let_def same
        convert_audio_unsupported [OF fmt])
  next
    case (Inr r)
    show ?thesis
    proof (cases r)
      case None
      with Inr show ?thesis using True job
        by (simp add: process_conversion_job_def try_body_def acquire_input_def Let_def same
          convert_audio_unsupported [OF fmt])
    next
      case (Some p)
      obtain ip t where p: "p = (ip, t)" by (cases p)
      with Some Inr show ?thesis using True job
        by (simp add: process_conversion_job_def try_body_def acquire_input_def Let_def same
          convert_audio_unsupported [OF fmt])
    qed
  qed
qed

theorem unsupported_format_fails_witness:
  "map_of AUDIO_FORMATS ''mp4a'' = None
   \<and> conversion_jobs demo_state demo_job_id = Some (queued_job demo_job_id ''Unknown'')
   \<and> (\<exists>st' j'. process_conversion_job demo_env demo_job_id ''file'' ''uploads/a.mp3'' ''mp4a''
                     PNone PNone demo_state = Inr st'
           \<and> conversion_jobs st' demo_job_id = Some j'
           \<and> status j' = Failed
           \<and> ffmpeg_calls st' = []
           \<and> ydl_calls st' = []
           \<and> error j' = Some ''Unsupported format: mp4a'')
   \<and> (\<exists>st' j'. process_conversion_job demo_env demo_job_id ''youtube'' ''https://youtu.be/abc''
                     ''mp4a'' PNone PNone demo_state = Inr st'
           \<and> conversion_jobs st' demo_job_id = Some j'
           \<and> status j' = Failed
           \<and> ffmpeg_calls st' = []
           \<and> ydl_calls st' = [''https://youtu.be/abc''])"
  using mp4a_unsupported demo_jobs
    unsupported_format_fails [OF mp4a_unsupported demo_jobs, of demo_env "''file''"
      "''uploads/a.mp3''" PNone PNone]
    unsupported_format_fails [OF mp4a_unsupported demo_jobs, of demo_env "''youtube''"
      "''https://youtu.be/abc''" PNone PNone]
  by (auto simp add: demo_fields)

lemmas run_defs = process_conversion_job_def try_body_def acquire_input_def
  download_youtube_audio_def convert_audio_def set_job_def Let_def
  demo_state_def submit_job_def empty_state_def demo_env_def queued_job_def
  os_path_exists_def os_remove_def

text \<open>
  The claim as first stated fails for a remote job: the format \<open>mp4a\<close> is not in the
  catalog, and the download has been performed when the job fails.
\<close>

theorem unsupported_format_counterexample:
  "map_of AUDIO_FORMATS ''mp4a'' = None
   \<and> ydl_calls demo_state = []
   \<and> ydl_calls (projr (process_conversion_job demo_env demo_job_id ''youtube''
         ''https://youtu.be/abc'' ''mp4a'' PNone PNone demo_state)) = [''https://youtu.be/abc'']"
  by (simp add: run_defs AUDIO_FORMATS_def demo_job_id_def os_path_join_def)

section \<open>Runs of a remote job\<close>

text \<open>
  Two runs of \<open>process_conversion_job\<close> for a remote source whose download delivers the
  file \<open>file\<close>: the encoder fails; the encoder succeeds and the removal of the
  downloaded file raises.
\<close>

lemma ogg_supported: "map_of AUDIO_FORMATS ''ogg'' = Some \<lparr>ext = ''ogg'', codec = ''libvorbis''\<rparr>"
  by (simp add: AUDIO_FORMATS_def)

lemma web_run_convert_fails:
  assumes job: "conversion_jobs st job_id = Some j"
    and dl: "extract_info env url (os_path_join ''temp'' (job_id @ ''_youtube.%(ext)s''))
               (temp_dir st) = (Inr t, listing)"
    and found: "find (prefix (job_id @ ''_youtube'')) listing = Some file"
    and fmt: "map_of AUDIO_FORMATS output_format = Some fi"
    and run: "ffmpeg_run env (os_path_join ''temp'' file)
                (web_output_path (os_path_join ''temp'' file) fi (Some job_id))
                (audio_params fi sample_rate bitrate) = Run_ffmpeg_error stderr"
  shows "\<exists>st'. process_conversion_job env job_id ''youtube'' url output_format
                  sample_rate bitrate st = Inr st'
          \<and> temp_dir st' = listing
          \<and> map_option status (conversion_jobs st' job_id) = Some Failed
          \<and> map_option output_path (conversion_jobs st' job_id) = Some (output_path j)"
  using job dl found fmt run
  by (simp add: process_conversion_job_def try_body_def acquire_input_def
      download_youtube_audio_def convert_audio_def set_job_def Let_def)

lemma web_run_remove_raises:
  assumes job: "conversion_jobs st job_id = Some j"
    and dl: "extract_info env url (os_path_join ''temp'' (job_id @ ''_youtube.%(ext)s''))
               (temp_dir st) = (Inr t, listing)"
    and found: "find (prefix (job_id @ ''_youtube'')) listing = Some file"
    and fmt: "map_of AUDIO_FORMATS output_format = Some fi"
    and run: "ffmpeg_run env (os_path_join ''temp'' file)
                (web_output_path (os_path_join ''temp'' file) fi (Some job_id))
                (audio_params fi sample_rate bitrate) = Run_ok"
    and rm: "remove_raises env (os_path_join ''temp'' file) = Some e"
  shows "\<exists>st'. process_conversion_job env job_id ''youtube'' url output_format
                  sample_rate bitrate st = Inr st'
          \<and> temp_dir st' = listing
          \<and> map_option status (conversion_jobs st' job_id) = Some Failed
          \<and> map_option output_path (conversion_jobs st' job_id)
              = Some (Some (web_output_path (os_path_join ''temp'' file) fi (Some job_id)))
          \<and> map_option error (conversion_jobs st' job_id) = Some (Some (str_exn e))
          \<and> map status (job_history job_id st')
              = map status (job_history job_id st) @
                [Processing, Processing, Processing, Processing, Processing, Processing,
                 Completed, Completed, Completed, Completed, Failed, Failed, Failed]"
proof -
  have mem: "file \<in> set listing"
    using found by (auto simp add: find_Some_iff)
  show ?thesis
    using job dl found fmt run rm mem
    by (simp add: process_conversion_job_def try_body_def acquire_input_def
        download_youtube_audio_def convert_audio_def set_job_def Let_def
        os_path_exists_def os_remove_def job_history_def)
qed

lemma demo_dl:
  "extract_info (demo_env\<lparr>ffmpeg_run := f, remove_raises := r\<rparr>) url tmpl (temp_dir demo_state)
     = (Inr (Some ''Song''), [demo_job_id @ ''_youtube.mp3''])"
  by (simp add: demo_env_def demo_state_def submit_job_def empty_state_def)

lemma demo_found:
  "find (prefix (demo_job_id @ ''_youtube'')) [demo_job_id @ ''_youtube.mp3'']
     = Some (demo_job_id @ ''_youtube.mp3'')"
  by simp

lemma gui_cleanup_removes:
  "remove_raises env temp_file = None \<Longrightarrow> temp_file \<noteq> [] \<Longrightarrow>
   \<not> gui_exists output_dir (gui_cleanup env output_dir temp_file st) temp_file"
  by (auto simp add: gui_cleanup_def gui_exists_def)

lemma gui_cleanup_signals:
  "finished_signals (gui_cleanup env output_dir temp_file st) = finished_signals st"
  "emitted (gui_cleanup env output_dir temp_file st) = emitted st"
  by (simp_all add: gui_cleanup_def split: option.splits)

section \<open>All runs of the web runner\<close>

text \<open>
  The snapshots that a run of \<open>process_conversion_job\<close> adds to the history of its
  job, whatever the downloader, the encoder and the removal do: the progress values are
  among 20, 60 and 100 and never decrease, and the statuses are a run of \<open>Processing\<close>
  followed by \<open>Completed\<close> or \<open>Failed\<close>, except for one trace, in which \<open>Failed\<close>
  follows \<open>Completed\<close>. When no removal raises, that trace does not occur, and the job
  ends completed with its output path and progress 100, or failed with neither.
\<close>

lemma set_job_history:
  "conversion_jobs s k = Some x \<Longrightarrow> history (set_job k f s) = history s @ [(k, f x)]"
  by (simp add: set_job_def)

lemma web_run_traces:
  assumes job: "conversion_jobs st job_id = Some j"
    and run: "process_conversion_job env job_id source_type source_data fmt sr br st = Inr st'"
  shows "\<exists>snaps. job_history job_id st' = job_history job_id st @ snaps
     \<and> map progress snaps \<in>
          {[progress j, 20, 20, 20, 20, 20],
           [progress j, 20, 20, 20, 60, 60, 60, 60, 60],
           [progress j, 20, 20, 20, 60, 60, 60, 100, 100, 100],
           [progress j, 20, 20, 20, 60, 60, 60, 100, 100, 100, 100, 100, 100],
           [progress j, 20, 60, 60, 60, 60, 60],
           [progress j, 20, 60, 60, 60, 100, 100, 100]}
     \<and> map status snaps \<in>
          {[Processing, Processing, Processing, Failed, Failed, Failed],
           [Processing, Processing, Processing, Processing, Processing, Processing,
            Failed, Failed, Failed],
           [Processing, Processing, Processing, Processing, Processing, Processing,
            Completed, Completed, Completed, Completed],
           [Processing, Processing, Processing, Processing, Processing, Processing,
            Completed, Completed, Completed, Completed, Failed, Failed, Failed],
           [Processing, Processing, Processing, Processing, Failed, Failed, Failed],
           [Processing, Processing, Processing, Processing,
            Completed, Completed, Completed, Completed]}"
proof -
  have dlh: "\<And>s. history (snd (download_youtube_audio env source_data job_id s)) = history s"
    by simp
  show ?thesis
    using job run
    apply (simp add: process_conversion_job_def try_body_def acquire_input_def Let_def
        split: sum.splits option.splits prod.splits if_splits)
    apply (auto simp add: job_history_def set_job_history os_remove_def split: option.splits)
    done
qed


lemma web_run_without_removal_failure:
  assumes job: "conversion_jobs st job_id = Some j"
    and fresh: "output_path j = None"
    and rm: "\<And>p. remove_raises env p = None"
    and run: "process_conversion_job env job_id source_type source_data fmt sr br st = Inr st'"
  shows "\<exists>snaps j'. job_history job_id st' = job_history job_id st @ snaps
     \<and> map status snaps \<in>
          {[Processing, Processing, Processing, Failed, Failed, Failed],
           [Processing, Processing, Processing, Processing, Processing, Processing,
            Failed, Failed, Failed],
           [Processing, Processing, Processing, Processing, Processing, Processing,
            Completed, Completed, Completed, Completed],
           [Processing, Processing, Processing, Processing, Failed, Failed, Failed],
           [Processing, Processing, Processing, Processing,
            Completed, Completed, Completed, Completed]}
     \<and> conversion_jobs st' job_id = Some j'
     \<and> (status j' = Completed \<or> status j' = Failed)
     \<and> (output_path j' \<noteq> None \<longleftrightarrow> status j' = Completed)
     \<and> (progress j' = 100 \<longleftrightarrow> status j' = Completed)"
  using job fresh run
  apply (simp add: process_conversion_job_def try_body_def acquire_input_def Let_def
      split: sum.splits option.splits prod.splits if_splits)
               apply (auto simp add: job_history_def set_job_history os_remove_def rm
      split: option.splits)
  done

section \<open>The downloaded file after a failed conversion\<close>

text \<open>
  C3. The web runner removes the downloaded file only on the path where the conversion
  succeeded, inside the \<open>try\<close> block. Here the download delivers
  \<open>{job_id}_youtube.mp3\<close> and the encoder fails: the job ends failed and the file is
  still listed in \<open>temp\<close>. And when the encoder succeeds and the removal raises, the
  handler records the removal's error as the job's error. (The thread of the desktop
  front end removes its temporary file in a \<open>finally\<close> block and drops the error, see
  \<open>gui_cleanup_removes\<close> and \<open>gui_cleanup_signals\<close>.)
\<close>

theorem scratch_file_left_behind:
  "temp_dir (projr (process_conversion_job
       (demo_env\<lparr>ffmpeg_run := (\<lambda>i out ps. Run_ffmpeg_error ''Invalid data found''),
                  remove_raises := (\<lambda>p. None)\<rparr>)
       demo_job_id ''youtube'' ''https://youtu.be/abc'' ''ogg'' PNone PNone demo_state))
     = [demo_job_id @ ''_youtube.mp3'']
   \<and> map_option status (conversion_jobs (projr (process_conversion_job
       (demo_env\<lparr>ffmpeg_run := (\<lambda>i out ps. Run_ffmpeg_error ''Invalid data found''),
                  remove_raises := (\<lambda>p. None)\<rparr>)
       demo_job_id ''youtube'' ''https://youtu.be/abc'' ''ogg'' PNone PNone demo_state)) demo_job_id)
     = Some Failed
   \<and> map_option error (conversion_jobs (projr (process_conversion_job
       (demo_env\<lparr>ffmpeg_run := (\<lambda>i out ps. Run_ok),
                  remove_raises := (\<lambda>p. Some (OSError ''[Errno 13] Permission denied''))\<rparr>)
       demo_job_id ''youtube'' ''https://youtu.be/abc'' ''ogg'' PNone PNone demo_state)) demo_job_id)
     = Some (Some ''[Errno 13] Permission denied'')"
proof -
  let ?env = "demo_env\<lparr>ffmpeg_run := (\<lambda>i out ps. Run_ffmpeg_error ''Invalid data found''),
                  remove_raises := (\<lambda>p. None)\<rparr>"
  have run: "ffmpeg_run ?env (os_path_join ''temp'' (demo_job_id @ ''_youtube.mp3''))
                (web_output_path (os_path_join ''temp'' (demo_job_id @ ''_youtube.mp3''))
                   \<lparr>ext = ''ogg'', codec = ''libvorbis''\<rparr> (Some demo_job_id))
                (audio_params \<lparr>ext = ''ogg'', codec = ''libvorbis''\<rparr> PNone PNone)
              = Run_ffmpeg_error ''Invalid data found''"
    by simp
  from web_run_convert_fails [OF demo_jobs demo_dl demo_found ogg_supported run]
  obtain st' where "process_conversion_job ?env demo_job_id ''youtube'' ''https://youtu.be/abc''
      ''ogg'' PNone PNone demo_state = Inr st'"
    and "temp_dir st' = [demo_job_id @ ''_youtube.mp3'']"
    and "map_option status (conversion_jobs st' demo_job_id) = Some Failed"
    by blast
  then have first: "temp_dir (projr (process_conversion_job ?env demo_job_id ''youtube''
        ''https://youtu.be/abc'' ''ogg'' PNone PNone demo_state)) = [demo_job_id @ ''_youtube.mp3'']
      \<and> map_option status (conversion_jobs (projr (process_conversion_job ?env demo_job_id
        ''youtube'' ''https://youtu.be/abc'' ''ogg'' PNone PNone demo_state)) demo_job_id)
        = Some Failed"
    by simp
  let ?env2 = "demo_env\<lparr>ffmpeg_run := (\<lambda>i out ps. Run_ok),
                  remove_raises := (\<lambda>p. Some (OSError ''[Errno 13] Permission denied''))\<rparr>"
  have run2: "ffmpeg_run ?env2 (os_path_join ''temp'' (demo_job_id @ ''_youtube.mp3''))
                (web_output_path (os_path_join ''temp'' (demo_job_id @ ''_youtube.mp3''))
                   \<lparr>ext = ''ogg'', codec = ''libvorbis''\<rparr> (Some demo_job_id))
                (audio_params \<lparr>ext = ''ogg'', codec = ''libvorbis''\<rparr> PNone PNone)
              = Run_ok"
    by simp
  have rm2: "remove_raises ?env2 (os_path_join ''temp'' (demo_job_id @ ''_youtube.mp3''))
              = Some (OSError ''[Errno 13] Permission denied'')"
    by simp
  from web_run_remove_raises [OF demo_jobs demo_dl demo_found ogg_supported run2 rm2]
  obtain st2 where "process_conversion_job ?env2 demo_job_id ''youtube'' ''https://youtu.be/abc''
      ''ogg'' PNone PNone demo_state = Inr st2"
    and "map_option error (conversion_jobs st2 demo_job_id)
           = Some (Some (str_exn (OSError ''[Errno 13] Permission denied'')))"
    by blast
  then have second: "map_option error (conversion_jobs (projr (process_conversion_job ?env2
        demo_job_id ''youtube'' ''https://youtu.be/abc'' ''ogg'' PNone PNone demo_state))
        demo_job_id) = Some (Some ''[Errno 13] Permission denied'')"
    by simp
  from first second show ?thesis by simp
qed

section \<open>A completed job that becomes failed\<close>

text \<open>
  C4. The statuses of a job run through \<open>Queued\<close>, \<open>Processing\<close>, and then
  \<open>Completed\<close> or \<open>Failed\<close>, and the job ends with an output path exactly when it
  ends completed, as long as no removal raises (\<open>web_run_without_removal_failure\<close>).
  But the removal of the downloaded file comes after the status has been set to
  \<open>Completed\<close> and is inside the \<open>try\<close> block, so when it raises, the job goes from
  \<open>Completed\<close> to \<open>Failed\<close> and ends failed with its output path set.
\<close>

theorem completed_then_failed:
  "map status (job_history demo_job_id (projr (process_conversion_job
       (demo_env\<lparr>ffmpeg_run := (\<lambda>i out ps. Run_ok),
                  remove_raises := (\<lambda>p. Some (OSError ''[Errno 13] Permission denied''))\<rparr>)
       demo_job_id ''youtube'' ''https://youtu.be/abc'' ''ogg'' PNone PNone demo_state)))
     = [Queued, Processing, Processing, Processing, Processing, Processing, Processing,
        Completed, Completed, Completed, Completed, Failed, Failed, Failed]
   \<and> map_option status (conversion_jobs (projr (process_conversion_job
       (demo_env\<lparr>ffmpeg_run := (\<lambda>i out ps. Run_ok),
                  remove_raises := (\<lambda>p. Some (OSError ''[Errno 13] Permission denied''))\<rparr>)
       demo_job_id ''youtube'' ''https://youtu.be/abc'' ''ogg'' PNone PNone demo_state)) demo_job_id)
     = Some Failed
   \<and> map_option output_path (conversion_jobs (projr (process_conversion_job
       (demo_env\<lparr>ffmpeg_run := (\<lambda>i out ps. Run_ok),
                  remove_raises := (\<lambda>p. Some (OSError ''[Errno 13] Permission denied''))\<rparr>)
       demo_job_id ''youtube'' ''https://youtu.be/abc'' ''ogg'' PNone PNone demo_state)) demo_job_id)
     = Some (Some (web_output_path (os_path_join ''temp'' (demo_job_id @ ''_youtube.mp3''))
                     \<lparr>ext = ''ogg'', codec = ''libvorbis''\<rparr> (Some demo_job_id)))"
proof -
  let ?env = "demo_env\<lparr>ffmpeg_run := (\<lambda>i out ps. Run_ok),
                  remove_raises := (\<lambda>p. Some (OSError ''[Errno 13] Permission denied''))\<rparr>"
  have run: "ffmpeg_run ?env (os_path_join ''temp'' (demo_job_id @ ''_youtube.mp3''))
                (web_output_path (os_path_join ''temp'' (demo_job_id @ ''_youtube.mp3''))
                   \<lparr>ext = ''ogg'', codec = ''libvorbis''\<rparr> (Some demo_job_id))
                (audio_params \<lparr>ext = ''ogg'', codec = ''libvorbis''\<rparr> PNone PNone)
              = Run_ok"
    by simp
  have rm: "remove_raises ?env (os_path_join ''temp'' (demo_job_id @ ''_youtube.mp3''))
              = Some (OSError ''[Errno 13] Permission denied'')"
    by simp
  have h: "map status (job_history demo_job_id demo_state) = [Queued]"
    by (simp add: job_history_def demo_state_def submit_job_def empty_state_def queued_job_def)
  from web_run_remove_raises [OF demo_jobs demo_dl demo_found ogg_supported run rm]
  obtain st' where "process_conversion_job ?env demo_job_id ''youtube'' ''https://youtu.be/abc''
      ''ogg'' PNone PNone demo_state = Inr st'"
    and "map_option status (conversion_jobs st' demo_job_id) = Some Failed"
    and "map_option output_path (conversion_jobs st' demo_job_id)
              = Some (Some (web_output_path (os_path_join ''temp'' (demo_job_id @ ''_youtube.mp3''))
                     \<lparr>ext = ''ogg'', codec = ''libvorbis''\<rparr> (Some demo_job_id)))"
    and "map status (job_history demo_job_id st')
              = map status (job_history demo_job_id demo_state) @
                [Processing, Processing, Processing, Processing, Processing, Processing,
                 Completed, Completed, Completed, Completed, Failed, Failed, Failed]"
    by blast
  then show ?thesis by (simp add: h)
qed


section \<open>Classification looks at the whole descriptor\<close>

lemma contains_sublist: "contains pat s \<longleftrightarrow> sublist pat s"
  by (induction s) (auto simp add: sublist_Cons_right)

lemma re_search_youtube_contains:
  "re_search_youtube s \<longleftrightarrow> contains ''youtube.com'' s \<or> contains ''youtu.be'' s"
  by (induction s) (auto simp add: youtube_regex_match_here_def)

lemma spec_after_scheme_suffix: "spec_after_scheme d = Some r \<Longrightarrow> suffix r d"
proof (induction d)
  case Nil
  then show ?case by simp
next
  case (Cons x xs)
  show ?case
  proof (cases "prefix ''://'' (x # xs)")
    case True
    with Cons.prems have "r = drop 3 (x # xs)" by simp
    then show ?thesis by (simp only: suffix_drop)
  next
    case False
    with Cons show ?thesis by (auto simp add: suffix_Cons split: if_splits)
  qed
qed

lemma spec_hostname_sublist: "spec_hostname d = Some h \<Longrightarrow> sublist h d"
proof -
  assume "spec_hostname d = Some h"
  then obtain r where r: "spec_after_scheme d = Some r"
    and h: "h = takeWhile (\<lambda>c. c \<noteq> CHR ''/'' \<and> c \<noteq> CHR ''?'' \<and> c \<noteq> CHR ''#'') r"
    by (auto simp add: spec_hostname_def)
  have "sublist h r" unfolding h by (rule sublist_takeWhile)
  moreover have "sublist r d" using spec_after_scheme_suffix [OF r] by (rule suffix_imp_sublist)
  ultimately show "sublist h d" by (rule sublist_order.order.trans)
qed

text \<open>
  C7, as amended. A descriptor is classified as a remote video exactly when the string
  \<open>youtube.com\<close> or \<open>youtu.be\<close> occurs anywhere in it, in the web, command-line
  and desktop front ends alike (the desktop one also requires a string); every other
  descriptor is treated as a local path. In particular every descriptor whose hostname
  contains one of the two domains is classified as remote.
\<close>

theorem classify_by_substring:
  "(is_youtube_url url \<longleftrightarrow> sublist ''youtube.com'' url \<or> sublist ''youtu.be'' url)
   \<and> cli_is_youtube_url url = is_youtube_url url
   \<and> gui_is_youtube_url (PStr url) = is_youtube_url url
   \<and> \<not> gui_is_youtube_url PNone \<and> \<not> gui_is_youtube_url (PInt n)
   \<and> (spec_classify_remote url \<longrightarrow> is_youtube_url url)"
proof -
  have a: "is_youtube_url url \<longleftrightarrow> sublist ''youtube.com'' url \<or> sublist ''youtu.be'' url"
    by (simp add: is_youtube_url_def re_search_youtube_contains contains_sublist)
  have b: "cli_is_youtube_url url = is_youtube_url url"
    by (simp add: cli_is_youtube_url_def is_youtube_url_def re_search_youtube_contains)
  have c: "gui_is_youtube_url (PStr url) = is_youtube_url url"
    by (simp add: gui_is_youtube_url_def is_youtube_url_def re_search_youtube_contains)
  have d: "\<not> gui_is_youtube_url PNone" "\<not> gui_is_youtube_url (PInt n)"
    by (simp_all add: gui_is_youtube_url_def)
  have e: "is_youtube_url url" if "spec_classify_remote url"
  proof -
    from that obtain h where h: "spec_hostname url = Some h"
      and hc: "contains ''youtube.com'' h \<or> contains ''youtu.be'' h"
      by (auto simp add: spec_classify_remote_def split: option.splits)
    have "sublist h url" by (rule spec_hostname_sublist [OF h])
    with hc have "sublist ''youtube.com'' url \<or> sublist ''youtu.be'' url"
      unfolding contains_sublist by (meson sublist_order.order.trans)
    with a show ?thesis by simp
  qed
  from a b c d e show ?thesis by blast
qed

theorem classify_by_substring_witness:
  "spec_classify_remote ''https://youtu.be/abc'' \<and> is_youtube_url ''https://youtu.be/abc''"
proof -
  have h: "spec_classify_remote ''https://youtu.be/abc''"
    by (simp add: spec_classify_remote_def spec_hostname_def)
  with classify_by_substring [of "''https://youtu.be/abc''"] show ?thesis by blast
qed

text \<open>
  The claim as first stated fails: a local path, which has no hostname, and a URL whose
  hostname is \<open>example.org\<close> are both classified as remote, since one of the domains
  occurs in their path.
\<close>

theorem classify_counterexample:
  "is_youtube_url ''/music/youtube.com.mp3''
   \<and> spec_hostname ''/music/youtube.com.mp3'' = None
   \<and> \<not> spec_classify_remote ''/music/youtube.com.mp3''
   \<and> is_youtube_url ''https://example.org/youtu.be''
   \<and> spec_hostname ''https://example.org/youtu.be'' = Some ''example.org''
   \<and> \<not> spec_classify_remote ''https://example.org/youtu.be''"
  by (simp add: is_youtube_url_def youtube_regex_match_here_def spec_classify_remote_def
      spec_hostname_def)

section \<open>Retrieving the output of a job\<close>

text \<open>
  C8, as amended. A retrieval for an unknown job id is answered \<open>Job not found\<close>
  (404); for a known job that is not completed it is refused with the explicit error
  \<open>File not ready\<close> (400) and no bytes are returned. For a completed job whose output
  file is no longer on disk the route makes no check of its own: it hands the path to
  \<open>send_file\<close>, and the \<open>FileNotFoundError\<close> raised there leaves the handler, which
  is not the job-not-found answer.
\<close>

theorem download_refusals:
  "(jobs job_id = None \<longrightarrow> download jobs disk job_id = Json_error ''Job not found'' 404)
   \<and> (jobs job_id = Some job \<and> status job \<noteq> Completed \<longrightarrow>
         download jobs disk job_id = Json_error ''File not ready'' 400)
   \<and> (jobs job_id = Some job \<and> status job = Completed \<and> output_path job = Some out
         \<and> out \<notin> set disk \<longrightarrow>
         download jobs disk job_id = Unhandled (FileNotFoundError out))"
  by (simp add: download_def send_file_def)

theorem download_refusals_witness:
  "download Map.empty [] demo_job_id = Json_error ''Job not found'' 404
   \<and> download [demo_job_id \<mapsto> queued_job demo_job_id ''a.mp3''] [] demo_job_id
       = Json_error ''File not ready'' 400
   \<and> download [demo_job_id \<mapsto> (queued_job demo_job_id ''a.mp3'')
                   \<lparr>status := Completed, output_path := Some ''outputs/a.ogg''\<rparr>] [] demo_job_id
       = Unhandled (FileNotFoundError ''outputs/a.ogg'')"
  using download_refusals [of Map.empty demo_job_id "[]"]
    download_refusals [of "[demo_job_id \<mapsto> queued_job demo_job_id ''a.mp3'']" demo_job_id
      "[]" "queued_job demo_job_id ''a.mp3''"]
    download_refusals [of "[demo_job_id \<mapsto> (queued_job demo_job_id ''a.mp3'')
                   \<lparr>status := Completed, output_path := Some ''outputs/a.ogg''\<rparr>]" demo_job_id
      "[]"
      "(queued_job demo_job_id ''a.mp3'')\<lparr>status := Completed, output_path := Some ''outputs/a.ogg''\<rparr>"
      "''outputs/a.ogg''"]
  by (simp add: queued_job_def)

text \<open>
  The claim as first stated fails for a completed job whose file has been swept: the
  route answers with no error of its own.
\<close>

theorem download_swept_counterexample:
  "\<not> explicit_error (download
        [demo_job_id \<mapsto> (queued_job demo_job_id ''a.mp3'')
           \<lparr>status := Completed, output_path := Some ''outputs/a.ogg''\<rparr>] [] demo_job_id)
   \<and> download
        [demo_job_id \<mapsto> (queued_job demo_job_id ''a.mp3'')
           \<lparr>status := Completed, output_path := Some ''outputs/a.ogg''\<rparr>] [] demo_job_id
       = Unhandled (FileNotFoundError ''outputs/a.ogg'')"
  by (simp add: download_def send_file_def queued_job_def)

section \<open>Output names\<close>

lemma digit_char_inj:
  assumes "a < 10" "b < 10" "digit_char a = digit_char b"
  shows "a = b"
proof -
  have a: "a \<in> {0, 1, 2, 3, 4, 5, 6, 7, 8, 9}" using assms(1) by auto
  have b: "b \<in> {0, 1, 2, 3, 4, 5, 6, 7, 8, 9}" using assms(2) by auto
  from a b assms(3) show ?thesis
    by (auto simp add: digit_char_def)
qed

lemma show_nat_nonempty: "show_nat n \<noteq> []"
  by (subst show_nat.simps) simp

lemma show_nat_inj: "show_nat n = show_nat m \<Longrightarrow> n = m"
proof (induction n arbitrary: m rule: show_nat.induct)
  case (1 n)
  show ?case
  proof (cases "n < 10")
    case small_n: True
    show ?thesis
    proof (cases "m < 10")
      case True
      with small_n "1.prems" have "digit_char n = digit_char m"
        by (simp add: show_nat.simps [of n] show_nat.simps [of m])
      with small_n True show ?thesis by (rule digit_char_inj)
    next
      case False
      with small_n "1.prems" have "show_nat (m div 10) = []"
        by (simp add: show_nat.simps [of n] show_nat.simps [of m])
      with show_nat_nonempty show ?thesis by blast
    qed
  next
    case big_n: False
    show ?thesis
    proof (cases "m < 10")
      case True
      with big_n "1.prems" have "show_nat (n div 10) = []"
        by (simp add: show_nat.simps [of n] show_nat.simps [of m])
      with show_nat_nonempty show ?thesis by blast
    next
      case False
      with big_n "1.prems" have eq: "show_nat (n div 10) = show_nat (m div 10)"
        and d: "digit_char (n mod 10) = digit_char (m mod 10)"
        by (simp_all add: show_nat.simps [of n] show_nat.simps [of m])
      from "1.IH" [OF big_n eq] have q: "n div 10 = m div 10" .
      have r: "n mod 10 = m mod 10"
        by (rule digit_char_inj [OF _ _ d]) simp_all
      have "n = 10 * (n div 10) + n mod 10" by simp
      also have "\<dots> = 10 * (m div 10) + m mod 10" using q r by simp
      also have "\<dots> = m" by simp
      finally show ?thesis .
    qed
  qed
qed

lemma numbered_path_inj:
  "numbered_path d b f k = numbered_path d b f k' \<Longrightarrow> k = k'"
proof -
  assume eq: "numbered_path d b f k = numbered_path d b f k'"
  have hd_same: "hd (b @ ''_'' @ show_nat k @ ''.'' @ f) = hd (b @ ''_'' @ show_nat k' @ ''.'' @ f)"
    by (cases b) simp_all
  have "b @ ''_'' @ show_nat k @ ''.'' @ f = b @ ''_'' @ show_nat k' @ ''.'' @ f"
    using eq hd_same by (simp add: numbered_path_def os_path_join_def split: if_splits)
  then have "show_nat k = show_nat k'" by simp
  then show ?thesis by (rule show_nat_inj)
qed

lemma numbered_bound:
  "\<exists>B. \<forall>k\<ge>B. numbered_path d b f k \<notin> set existing"
proof -
  have "inj (numbered_path d b f)"
    by (rule injI) (rule numbered_path_inj)
  then have "finite (numbered_path d b f -` set existing)"
    by (intro finite_vimageI) simp_all
  then obtain B where "\<forall>k \<in> numbered_path d b f -` set existing. k < B"
    using finite_nat_set_iff_bounded by blast
  then have "\<forall>k\<ge>B. numbered_path d b f k \<notin> set existing"
    by (auto simp add: not_less [symmetric])
  then show ?thesis ..
qed

lemma suffix_loop_returns:
  assumes B: "\<forall>k\<ge>B. numbered_path d b f k \<notin> set existing"
  shows "\<exists>p. suffix_loop existing d b f counter path = Some p \<and> p \<notin> set existing
            \<and> (p = path \<or> (\<exists>k\<ge>counter. p = numbered_path d b f k))"
proof (induction "B - counter" arbitrary: counter path rule: less_induct)
  case less
  show ?case
  proof (cases "path \<in> set existing")
    case False
    then show ?thesis by (subst suffix_loop.simps) simp
  next
    case True
    show ?thesis
    proof (cases "counter < B")
      case True
      then have "B - (counter + 1) < B - counter" by simp
      from less [OF this, of "numbered_path d b f counter"]
      obtain p where p: "suffix_loop existing d b f (counter + 1) (numbered_path d b f counter) = Some p"
        and pn: "p \<notin> set existing"
        and pk: "p = numbered_path d b f counter \<or> (\<exists>k\<ge>counter + 1. p = numbered_path d b f k)"
        by blast
      from pk have "\<exists>k\<ge>counter. p = numbered_path d b f k"
        by (metis Suc_eq_plus1 Suc_leD order_refl)
      with p pn \<open>path \<in> set existing\<close> show ?thesis
        by (subst suffix_loop.simps) simp
    next
      case False
      then have "numbered_path d b f counter \<notin> set existing" using B by simp
      then have "suffix_loop existing d b f (counter + 1) (numbered_path d b f counter)
                   = Some (numbered_path d b f counter)"
        by (subst suffix_loop.simps) simp
      with \<open>path \<in> set existing\<close> \<open>numbered_path d b f counter \<notin> set existing\<close> show ?thesis
        by (subst suffix_loop.simps) auto
    qed
  qed
qed

lemma gui_output_path_fresh:
  "\<exists>p. gui_output_path existing d b f = Some p \<and> p \<notin> set existing
       \<and> (p = os_path_join d (b @ ''.'' @ f) \<or> (\<exists>k\<ge>1. p = numbered_path d b f k))"
proof -
  obtain B where "\<forall>k\<ge>B. numbered_path d b f k \<notin> set existing"
    using numbered_bound by blast
  from suffix_loop_returns [OF this, of 1 "os_path_join d (b @ ''.'' @ f)"]
  show ?thesis by (simp add: gui_output_path_def)
qed

lemma web_output_path_inj:
  assumes len: "length j1 = length j2" and ne: "j1 \<noteq> j2"
  shows "web_output_path i1 f1 (Some j1) \<noteq> web_output_path i2 f2 (Some j2)"
proof
  assume eq: "web_output_path i1 f1 (Some j1) = web_output_path i2 f2 (Some j2)"
  let ?b1 = "j1 @ ''_'' @ path_stem i1 @ ''.'' @ ext f1"
  let ?b2 = "j2 @ ''_'' @ path_stem i2 @ ''.'' @ ext f2"
  have eq': "os_path_join ''outputs'' ?b1 = os_path_join ''outputs'' ?b2"
    using eq by (simp add: web_output_path_def format_job_id_def OUTPUT_FOLDER_def)
  have "?b1 = ?b2"
  proof (cases "hd ?b1 = CHR ''/''")
    case True
    then have l: "os_path_join ''outputs'' ?b1 = ?b1" by (simp add: os_path_join_def)
    show ?thesis
    proof (cases "hd ?b2 = CHR ''/''")
      case True
      then have "os_path_join ''outputs'' ?b2 = ?b2" by (simp add: os_path_join_def)
      with l eq' show ?thesis by simp
    next
      case False
      then have "os_path_join ''outputs'' ?b2 = ''outputs/'' @ ?b2" by (simp add: os_path_join_def)
      with l eq' have "?b1 = ''outputs/'' @ ?b2" by simp
      then have "hd ?b1 = CHR ''o''" by simp
      with True show ?thesis by simp
    qed
  next
    case False
    then have l: "os_path_join ''outputs'' ?b1 = ''outputs/'' @ ?b1" by (simp add: os_path_join_def)
    show ?thesis
    proof (cases "hd ?b2 = CHR ''/''")
      case True
      then have "os_path_join ''outputs'' ?b2 = ?b2" by (simp add: os_path_join_def)
      with l eq' have "?b2 = ''outputs/'' @ ?b1" by simp
      then have "hd ?b2 = CHR ''o''" by simp
      with True show ?thesis by simp
    next
      case False
      then have "os_path_join ''outputs'' ?b2 = ''outputs/'' @ ?b2" by (simp add: os_path_join_def)
      with l eq' show ?thesis by simp
    qed
  qed
  with len have "j1 = j2" by simp
  with ne show False by simp
qed

lemma stem_a_mp3: "path_stem ''a.mp3'' = ''a''" "path_stem ''a.wav'' = ''a''"
  by (simp_all add: path_stem_def path_name_def)

text \<open>
  C6. In the web mode the output path is the output folder joined with
  \<open>{job_id}_{stem}.{ext}\<close>, so two jobs with distinct job ids of one length (they are
  \<open>str(uuid.uuid4())\<close>, 36 characters) never compute the same output path
  (\<open>web_output_path_inj\<close>), and the desktop front end tries \<open>name.ext\<close>,
  \<open>name_1.ext\<close>, \<open>name_2.ext\<close>, ... and returns a path that does not exist
  (\<open>gui_output_path_fresh\<close>). The command-line tool has neither a job id in the name
  nor the loop: two inputs with the same stem, \<open>a.mp3\<close> and \<open>a.wav\<close>, are both
  converted successfully to \<open>converted/a.ogg\<close>, the encoder being told twice to write
  that path, where the desktop front end picks \<open>a_1.ogg\<close> for the second.
\<close>

theorem cli_same_stem_collision:
  "fst (cli_convert_audio demo_env (\<lambda>d. None) ''a.mp3'' ''ogg'' PNone PNone ''converted'')
     = Inr (Some ''converted/a.ogg'')
   \<and> fst (cli_convert_audio demo_env (\<lambda>d. None) ''a.wav'' ''ogg'' PNone PNone ''converted'')
     = Inr (Some ''converted/a.ogg'')
   \<and> map (\<lambda>c. (fst c, fst (snd c)))
        (snd (cli_convert_audio demo_env (\<lambda>d. None) ''a.mp3'' ''ogg'' PNone PNone ''converted''))
     = [(''a.mp3'', ''converted/a.ogg'')]
   \<and> map (\<lambda>c. (fst c, fst (snd c)))
        (snd (cli_convert_audio demo_env (\<lambda>d. None) ''a.wav'' ''ogg'' PNone PNone ''converted''))
     = [(''a.wav'', ''converted/a.ogg'')]
   \<and> gui_output_path [''converted/a.ogg''] ''converted'' ''a'' ''ogg''
     = Some ''converted/a_1.ogg''"
proof -
  have c: "cli_output_path ''a.mp3'' \<lparr>ext = ''ogg'', codec = ''libvorbis''\<rparr> ''converted''
     = ''converted/a.ogg''"
    "cli_output_path ''a.wav'' \<lparr>ext = ''ogg'', codec = ''libvorbis''\<rparr> ''converted''
     = ''converted/a.ogg''"
    by (simp_all add: cli_output_path_def stem_a_mp3 os_path_join_def)
  have ogg: "map_of AUDIO_FORMATS ''ogg'' = Some \<lparr>ext = ''ogg'', codec = ''libvorbis''\<rparr>"
    by (simp add: AUDIO_FORMATS_def)
  have call: "cli_convert_audio demo_env (\<lambda>d. None) ''a.mp3'' ''ogg'' PNone PNone ''converted''
       = (Inr (Some ''converted/a.ogg''),
          [(''a.mp3'', ''converted/a.ogg'',
            audio_params \<lparr>ext = ''ogg'', codec = ''libvorbis''\<rparr> PNone PNone)])"
    "cli_convert_audio demo_env (\<lambda>d. None) ''a.wav'' ''ogg'' PNone PNone ''converted''
       = (Inr (Some ''converted/a.ogg''),
          [(''a.wav'', ''converted/a.ogg'',
            audio_params \<lparr>ext = ''ogg'', codec = ''libvorbis''\<rparr> PNone PNone)])"
    by (simp_all add: cli_convert_audio_def ogg c demo_env_def Let_def)
  have one: "show_nat (Suc 0) = ''1''"
    by (subst show_nat.simps) (simp add: digit_char_def)
  have g: "gui_output_path [''converted/a.ogg''] ''converted'' ''a'' ''ogg''
     = Some ''converted/a_1.ogg''"
    apply (simp add: gui_output_path_def os_path_join_def)
    apply (subst suffix_loop.simps)
    apply (simp add: numbered_path_def one os_path_join_def)
    apply (subst suffix_loop.simps)
    apply simp
    done
  from call g show ?thesis by simp
qed

section \<open>Progress reported by the download hook\<close>

lemma hook_value:
  "youtube_progress_hook \<lparr>d_status = ''downloading'', downloaded_bytes = Some 1024,
                            total_bytes = None\<rparr>
     = Inr (Some (51220, ''Downloading... '' @ show_int (py_int 102400) @ ''%''))"
  by (simp add: youtube_progress_hook_def Let_def py_int_def)

lemma title_song: "title_base_name ''Song'' = ''Song''"
  by (simp add: title_base_name_def isalnum_def)

lemma gui_url: "gui_is_youtube_url (PStr ''https://youtu.be/abc'')"
  by (simp add: gui_is_youtube_url_def)

text \<open>
  C5. The web runner sets the progress to 20, 60 and 100 in turn, and to 100 only
  after the status \<open>Completed\<close> (\<open>web_run_traces\<close>). The download hook of
  the desktop front end scales the downloaded bytes by the total, and takes 1 for a
  total that the downloader does not give: for a progress report of 1024 downloaded
  bytes without \<open>total_bytes\<close> it emits the percentage 51220, and the percentages of
  that run are neither within 0 to 100 nor non-decreasing.
\<close>

theorem gui_progress_out_of_range:
  "map_option fst (projr (youtube_progress_hook
       \<lparr>d_status = ''downloading'', downloaded_bytes = Some 1024, total_bytes = None\<rparr>))
     = Some 51220
   \<and> map_option (\<lambda>st. map fst (emitted st))
       (gui_run gui_demo_env
          [\<lparr>d_status = ''downloading'', downloaded_bytes = Some 1024, total_bytes = None\<rparr>]
          ''https://youtu.be/abc'' ''ogg'' ''converted'' Map.empty gui_empty_state)
     = Some [10, 20, 51220, 70, 90, 100]"
proof -
  have a: "map_option fst (projr (youtube_progress_hook
       \<lparr>d_status = ''downloading'', downloaded_bytes = Some 1024, total_bytes = None\<rparr>))
     = Some 51220"
    by (simp add: hook_value)
  have out: "gui_output_path [''converted/youtube_temp_Song.mp3''] ''converted'' ''Song'' ''ogg''
      = Some ''converted/Song.ogg''"
    unfolding gui_output_path_def
    by (subst suffix_loop.simps) (simp add: os_path_join_def)
  have b: "map_option (\<lambda>st. map fst (emitted st))
       (gui_run gui_demo_env
          [\<lparr>d_status = ''downloading'', downloaded_bytes = Some 1024, total_bytes = None\<rparr>]
          ''https://youtu.be/abc'' ''ogg'' ''converted'' Map.empty gui_empty_state)
     = Some [10, 20, 51220, 70, 90, 100]"
    by (simp add: gui_run_def gui_url gui_download_youtube_def Let_def hook_value emit_def
        gui_demo_env_def gui_empty_state_def gui_convert_audio_def title_song out
        gui_finish_def gui_cleanup_def gui_exists_def os_path_join_def suffix_def)
  from a b show ?thesis by simp
qed

end
